theory Spec2Isabelle
  imports Main "HOL-Library.AList"
begin

section \<open>Python strings\<close>

text \<open>
  Header values reach the application decoded as Latin-1, one character per byte, so a
  Python character of a header is a HOL \<open>char\<close>. \<open>str.strip()\<close> removes the characters
  Python counts as whitespace; the ones below code point 256 are listed here.
\<close>

definition py_isspace :: "char \<Rightarrow> bool" where
  "py_isspace c = (of_char c \<in> {9, 10, 11, 12, 13, 28, 29, 30, 31, 32, 133, 160 :: nat})"

definition strip :: "string \<Rightarrow> string" where
  "strip s = rev (dropWhile py_isspace (rev (dropWhile py_isspace s)))"

text \<open>\<open>s.split(c)\<close> for a separator of one character: never the empty list.\<close>

fun split_on :: "char \<Rightarrow> string \<Rightarrow> string list" where
  "split_on c [] = [[]]"
| "split_on c (x # xs) =
     (if x = c then [] # split_on c xs
      else (case split_on c xs of
              p # ps \<Rightarrow> (x # p) # ps
            | [] \<Rightarrow> [[x]]))"

definition startswith :: "string \<Rightarrow> string \<Rightarrow> bool" where
  "startswith s p = (take (length p) s = p)"

text \<open>
  \<open>str(n)\<close> for an integer: its decimal digits, with a minus sign when negative.
  \<open>digit_char\<close> is only applied to numbers below 10.
\<close>

definition digit_char :: "nat \<Rightarrow> char" where
  "digit_char d = ''0123456789'' ! d"

fun str_nat :: "nat \<Rightarrow> string" where
  "str_nat n = (if n < 10 then [digit_char n] else str_nat (n div 10) @ [digit_char (n mod 10)])"

declare str_nat.simps [simp del]

definition str_int :: "int \<Rightarrow> string" where
  "str_int i = (if i < 0 then CHR ''-'' # str_nat (nat (- i)) else str_nat (nat i))"

section \<open>Counter store\<close>

text \<open>
  The limiter keeps one Redis sorted set per key: members (strings) with integer scores,
  and the key's time to live. The store is modelled by the commands the limiter issues:
  ZREMRANGEBYSCORE, ZADD, ZCARD, EXPIRE and DEL. A sorted set never exists empty: removing
  its last member removes the key. A member occurs once in a set; adding it again only
  replaces its score. Scores are integers here (the limiter stores clock seconds), and
  \<open>EXPIRE\<close> with a time to live that is not positive deletes the key. A store is what
  Redis holds at the moment of a call: keys running out between two calls are not
  modelled.
\<close>

record zentry =
  zmembers :: "(string \<times> int) list"
  zttl :: "int option"

type_synonym store = "string \<Rightarrow> zentry option"

definition zremrangebyscore :: "string \<Rightarrow> int \<Rightarrow> int \<Rightarrow> store \<Rightarrow> store" where
  "zremrangebyscore key lo hi st =
     (case st key of
        None \<Rightarrow> st
      | Some e \<Rightarrow>
          (let ms = filter (\<lambda>(m, s). \<not> (lo \<le> s \<and> s \<le> hi)) (zmembers e)
           in if ms = [] then st(key := None) else st(key \<mapsto> e\<lparr>zmembers := ms\<rparr>)))"

definition zadd :: "string \<Rightarrow> string \<Rightarrow> int \<Rightarrow> store \<Rightarrow> store" where
  "zadd key m sc st =
     (case st key of
        None \<Rightarrow> st(key \<mapsto> \<lparr>zmembers = [(m, sc)], zttl = None\<rparr>)
      | Some e \<Rightarrow> st(key \<mapsto> e\<lparr>zmembers := AList.update m sc (zmembers e)\<rparr>))"

definition zcard :: "string \<Rightarrow> store \<Rightarrow> int" where
  "zcard key st = (case st key of None \<Rightarrow> 0 | Some e \<Rightarrow> int (length (zmembers e)))"

definition expire :: "string \<Rightarrow> int \<Rightarrow> store \<Rightarrow> store" where
  "expire key seconds st =
     (case st key of
        None \<Rightarrow> st
      | Some e \<Rightarrow> if seconds \<le> 0 then st(key := None) else st(key \<mapsto> e\<lparr>zttl := Some seconds\<rparr>))"

definition delete :: "string list \<Rightarrow> store \<Rightarrow> store" where
  "delete keys st = fold (\<lambda>k s. s(k := None)) keys st"

section \<open>Rate limiter (utils/rate\_limiter.py)\<close>

text \<open>
  \<open>redis\<close> is the limiter's client handle: \<open>None\<close> when the constructor could not reach
  the store (\<open>ping\<close> raised \<open>ConnectionError\<close>), otherwise the server the handle talks
  to: whether it answers at the moment of the call, and what it holds. A command sent
  while the server does not answer raises \<open>ConnectionError\<close>, as \<open>ping\<close> does in the
  constructor. Calls to the logger do not change any result and are left out of the
  limiter's model.
\<close>

datatype link = Up | Down

record rate_limiter =
  redis :: "(link \<times> store) option"

definition RateLimiter_init :: "link \<Rightarrow> store \<Rightarrow> rate_limiter" where
  "RateLimiter_init l st =
     (case l of
        Up \<Rightarrow> \<lparr>redis = Some (Up, st)\<rparr>
      | Down \<Rightarrow> \<lparr>redis = None\<rparr>)"

text \<open>The server stops answering; the limiter keeps its handle.\<close>

definition store_goes_down :: "rate_limiter \<Rightarrow> rate_limiter" where
  "store_goes_down self = self\<lparr>redis := map_option (\<lambda>(l, st). (Down, st)) (redis self)\<rparr>"

record request =
  headers :: "string \<Rightarrow> string option"
  req_client :: "string option"

record detail =
  error :: string
  limit_type :: string
  limit :: int
  current :: int
  reset_in_seconds :: int

datatype exn = ZeroDivisionError | IndexError | ConnectionError | HTTPException int detail

record settings =
  rate_limit_per_minute :: int
  rate_limit_per_hour :: int
  mqtt_broker :: string
  mqtt_port :: int
  mqtt_keepalive :: int
  mqtt_client_id :: string

definition get_client_ip :: "request \<Rightarrow> exn + string" where
  "get_client_ip request =
     (let peer = (case req_client request of Some host \<Rightarrow> host | None \<Rightarrow> ''unknown'');
          after_forwarded =
            (case headers request ''X-Real-IP'' of
               Some real_ip \<Rightarrow> if real_ip \<noteq> [] then real_ip else peer
             | None \<Rightarrow> peer)
      in case headers request ''X-Forwarded-For'' of
           Some forwarded_for \<Rightarrow>
             if forwarded_for \<noteq> [] then
               (case split_on CHR '','' forwarded_for of
                  [] \<Rightarrow> Inl IndexError
                | p # _ \<Rightarrow> Inr (strip p))
             else Inr after_forwarded
         | None \<Rightarrow> Inr after_forwarded)"

definition get_token_from_request :: "request \<Rightarrow> exn + string option" where
  "get_token_from_request request =
     (case headers request ''Authorization'' of
        Some auth_header \<Rightarrow>
          if auth_header \<noteq> [] \<and> startswith auth_header ''Bearer '' then
            (case split_on CHR '' '' auth_header of
               _ # t # _ \<Rightarrow> Inr (Some t)
             | _ \<Rightarrow> Inl IndexError)
          else Inr None
      | None \<Rightarrow> Inr None)"

definition generate_key :: "string \<Rightarrow> string \<Rightarrow> string \<Rightarrow> string" where
  "generate_key prefix identifier window =
     ''rate_limit:'' @ prefix @ '':'' @ identifier @ '':'' @ window"

text \<open>
  \<open>_is_rate_limited\<close>. \<open>current_time\<close> is the value \<open>int(time.time())\<close> read by this call.
  The four commands run as one transaction, in this order, when \<open>pipe.execute()\<close> sends
  them; the method has no handler for what \<open>execute\<close> raises. Python's \<open>%\<close> on integers is
  HOL's \<open>mod\<close> (the result has the divisor's sign) and raises for a zero divisor.
\<close>

definition is_rate_limited ::
  "rate_limiter \<Rightarrow> string \<Rightarrow> int \<Rightarrow> int \<Rightarrow> int \<Rightarrow> exn + ((bool \<times> int \<times> int) \<times> rate_limiter)" where
  "is_rate_limited self key lim window_seconds current_time =
     (case redis self of
        None \<Rightarrow> Inr ((False, 0, 0), self)
      | Some (l, st) \<Rightarrow>
          if window_seconds = 0 then Inl ZeroDivisionError
          else
            (case l of
               Down \<Rightarrow> Inl ConnectionError
             | Up \<Rightarrow>
                 (let window_start = current_time - current_time mod window_seconds;
                      st1 = zremrangebyscore key 0 (window_start - 1) st;
                      st2 = zadd key (str_int current_time) current_time st1;
                      current_count = zcard key st2;
                      st3 = expire key window_seconds st2;
                      is_limited = (current_count > lim)
                  in Inr ((is_limited, current_count,
                           window_seconds - current_time mod window_seconds),
                          self\<lparr>redis := Some (Up, st3)\<rparr>))))"

text \<open>
  \<open>check_rate_limit\<close>; \<open>check_token_limits\<close> is its block under \<open>if token:\<close>. The result
  is the exception raised, if any, and the limiter after the call: what was written to the
  store before a raise stays written. \<open>tm k\<close> is the clock reading of the \<open>k\<close>-th call of
  \<open>_is_rate_limited\<close> made for this request (counted from 0, the token calls being 2 and
  3), and \<open>token_hash\<close> stands for \<open>hashlib.sha256(token.encode()).hexdigest()\<close>. A limit
  argument that is \<open>None\<close> or \<open>0\<close> is replaced by the configured default
  (\<open>limit or default\<close>).
\<close>

definition or_default :: "int option \<Rightarrow> int \<Rightarrow> int" where
  "or_default given dflt = (case given of None \<Rightarrow> dflt | Some l \<Rightarrow> if l = 0 then dflt else l)"

definition too_many :: "string \<Rightarrow> string \<Rightarrow> int \<Rightarrow> int \<Rightarrow> int \<Rightarrow> exn" where
  "too_many msg ty lim cnt remaining =
     HTTPException 429
       \<lparr>error = msg, limit_type = ty, limit = lim, current = cnt, reset_in_seconds = remaining\<rparr>"

definition check_token_limits ::
  "rate_limiter \<Rightarrow> (string \<Rightarrow> string) \<Rightarrow> string \<Rightarrow> int \<Rightarrow> int \<Rightarrow> (nat \<Rightarrow> int)
     \<Rightarrow> exn option \<times> rate_limiter" where
  "check_token_limits self token_hash token limit_per_minute limit_per_hour tm =
     (let token_key_minute = generate_key ''token'' (token_hash token) ''minute'';
          token_key_hour = generate_key ''token'' (token_hash token) ''hour''
      in case is_rate_limited self token_key_minute limit_per_minute 60 (tm 2) of
           Inl e \<Rightarrow> (Some e, self)
         | Inr ((is_limited_token_minute, count_token_minute, remaining_token_minute), self1) \<Rightarrow>
             (case is_rate_limited self1 token_key_hour limit_per_hour 3600 (tm 3) of
                Inl e \<Rightarrow> (Some e, self1)
              | Inr ((is_limited_token_hour, count_token_hour, remaining_token_hour), self2) \<Rightarrow>
                  if is_limited_token_minute then
                    (Some (too_many ''Token rate limit exceeded'' ''per_minute'' limit_per_minute
                             count_token_minute remaining_token_minute), self2)
                  else if is_limited_token_hour then
                    (Some (too_many ''Token rate limit exceeded'' ''per_hour'' limit_per_hour
                             count_token_hour remaining_token_hour), self2)
                  else (None, self2)))"

definition check_rate_limit ::
  "rate_limiter \<Rightarrow> settings \<Rightarrow> (string \<Rightarrow> string) \<Rightarrow> request \<Rightarrow> int option \<Rightarrow> int option
     \<Rightarrow> (nat \<Rightarrow> int) \<Rightarrow> exn option \<times> rate_limiter" where
  "check_rate_limit self cfg token_hash request limit_per_minute0 limit_per_hour0 tm =
     (case redis self of
        None \<Rightarrow> (None, self)
      | Some _ \<Rightarrow>
     (case get_client_ip request of
        Inl e \<Rightarrow> (Some e, self)
      | Inr client_ip \<Rightarrow>
     (case get_token_from_request request of
        Inl e \<Rightarrow> (Some e, self)
      | Inr token \<Rightarrow>
     (let limit_per_minute = or_default limit_per_minute0 (rate_limit_per_minute cfg);
          limit_per_hour = or_default limit_per_hour0 (rate_limit_per_hour cfg);
          ip_key_minute = generate_key ''ip'' client_ip ''minute'';
          ip_key_hour = generate_key ''ip'' client_ip ''hour''
      in case is_rate_limited self ip_key_minute limit_per_minute 60 (tm 0) of
           Inl e \<Rightarrow> (Some e, self)
         | Inr ((is_limited_minute, count_minute, remaining_minute), self1) \<Rightarrow>
             (case is_rate_limited self1 ip_key_hour limit_per_hour 3600 (tm 1) of
                Inl e \<Rightarrow> (Some e, self1)
              | Inr ((is_limited_hour, count_hour, remaining_hour), self2) \<Rightarrow>
                  if is_limited_minute then
                    (Some (too_many ''Rate limit exceeded'' ''per_minute'' limit_per_minute
                             count_minute remaining_minute), self2)
                  else if is_limited_hour then
                    (Some (too_many ''Rate limit exceeded'' ''per_hour'' limit_per_hour
                             count_hour remaining_hour), self2)
                  else (case token of
                          None \<Rightarrow> (None, self2)
                        | Some tok \<Rightarrow>
                            if tok = [] then (None, self2)
                            else check_token_limits self2 token_hash tok
                                   limit_per_minute limit_per_hour tm))))))"

definition clear_rate_limits :: "rate_limiter \<Rightarrow> string \<Rightarrow> string \<Rightarrow> bool \<times> rate_limiter" where
  "clear_rate_limits self identifier lim_type =
     (case redis self of
        None \<Rightarrow> (False, self)
      | Some (l, st) \<Rightarrow>
          (let minute_key = generate_key lim_type identifier ''minute'';
               hour_key = generate_key lim_type identifier ''hour''
           in case l of
                Up \<Rightarrow> (True, self\<lparr>redis := Some (Up, delete [minute_key, hour_key] st)\<rparr>)
              | Down \<Rightarrow> (False, self)))"

section \<open>Command channel (services/mqtt\_client.py)\<close>

text \<open>
  What the service does to the outside world is returned as a list of actions, in the
  order they happen: calls on the broker client, \<open>time.sleep\<close> and log records. What the
  outside world answers (the result of \<open>client.connect\<close>, of \<open>client.publish\<close>, of
  \<open>client.subscribe\<close>, an exception of the client library) is an argument of the
  method. Instants (\<open>datetime.utcnow()\<close>) are integers, the microseconds since the epoch:
  \<open>total_seconds()\<close> of a difference is that many microseconds divided by \<open>10^6\<close>.
\<close>

datatype level = DEBUG | INFO | WARNING | ERROR

datatype jval =
    JNull
  | JBool bool
  | JInt int
  | JStr string
  | JList "jval list"
  | JDict "(string \<times> jval) list"

datatype action =
    Log level string
  | Sleep int
  | ClientConnect string int int
  | LoopStart
  | LoopStop
  | ClientDisconnect
  | ClientSubscribe string int
  | ClientPublish string "(string \<times> jval) list" int

datatype connect_outcome = ConnectRc int | ConnectRaises string

datatype subscribe_outcome = SubscribeRc int | SubscribeRaises string

datatype publish_outcome = PublishRc int | PublishRaises string

datatype disconnect_outcome = Disconnected | LoopStopRaises string | DisconnectRaises string

datatype loads_outcome = Loaded jval | JSONDecodeError | LoadsRaises string

datatype decode_outcome = Decoded string | DecodeRaises string

datatype handler_outcome = Returned | Raises string | Escapes string

text \<open>
  A handler is called with the decoded data. It returns, or it raises an exception of
  class \<open>Exception\<close> (\<open>Raises e\<close>, with \<open>e\<close> the exception as printed), or it raises one
  outside that class, as \<open>SystemExit\<close> and \<open>KeyboardInterrupt\<close> are (\<open>Escapes e\<close>): an
  \<open>except Exception\<close> clause catches the second kind and not the third. What decoding
  raises (\<open>UnicodeDecodeError\<close>, \<open>JSONDecodeError\<close>, \<open>RecursionError\<close>) is of class
  \<open>Exception\<close>; \<open>DecodeRaises e\<close> and \<open>LoadsRaises e\<close> carry it as printed.
  \<open>client\<close> holds the client id of the broker client once \<open>_setup_client\<close> has created it;
  the constructor is modelled where \<open>_setup_client\<close> succeeds (where it raises, no service
  comes to exist).
\<close>

record mqtt_service =
  client :: "string option"
  is_connected :: bool
  connection_attempts :: int
  max_connection_attempts :: int
  reconnect_delay :: int
  message_handlers :: "string \<Rightarrow> (jval \<Rightarrow> handler_outcome) option"
  last_connection_time :: "int option"
  last_message_time :: "int option"

record message =
  topic :: string
  payload :: "char list"

definition MQTT_ERR_SUCCESS :: int where
  "MQTT_ERR_SUCCESS = 0"

definition MQTTService_init :: "settings \<Rightarrow> int \<Rightarrow> mqtt_service \<times> action list" where
  "MQTTService_init cfg now_seconds =
     (\<lparr>client = Some (mqtt_client_id cfg @ ''_'' @ str_int now_seconds),
       is_connected = False,
       connection_attempts = 0,
       max_connection_attempts = 5,
       reconnect_delay = 5,
       message_handlers = Map.empty,
       last_connection_time = None,
       last_message_time = None\<rparr>,
      [Log INFO ''MQTT client setup completed''])"

definition subscribe_one :: "(string \<Rightarrow> subscribe_outcome) \<Rightarrow> string \<times> int \<Rightarrow> action list" where
  "subscribe_one answer tq =
     (case tq of (t, qos) \<Rightarrow>
        ClientSubscribe t qos #
        (case answer t of
           SubscribeRc r \<Rightarrow>
             if r = MQTT_ERR_SUCCESS then [Log INFO (''Subscribed to topic: '' @ t)]
             else [Log ERROR (''Failed to subscribe to topic: '' @ t)]
         | SubscribeRaises e \<Rightarrow>
             [Log ERROR (''Error subscribing to topic '' @ t @ '': '' @ e)]))"

definition subscribe_to_topics :: "(string \<Rightarrow> subscribe_outcome) \<Rightarrow> action list" where
  "subscribe_to_topics answer =
     concat (map (subscribe_one answer)
       [(''foodyeh/status'', 1), (''foodyeh/order/+/response'', 1),
        (''foodyeh/error'', 1), (''foodyeh/heartbeat'', 0)])"

definition error_message :: "int \<Rightarrow> string" where
  "error_message rc =
     (if rc = 1 then ''Incorrect protocol version''
      else if rc = 2 then ''Invalid client identifier''
      else if rc = 3 then ''Server unavailable''
      else if rc = 4 then ''Bad username or password''
      else if rc = 5 then ''Not authorized''
      else ''Unknown error code: '' @ str_int rc)"

definition on_connect ::
  "mqtt_service \<Rightarrow> int \<Rightarrow> int \<Rightarrow> (string \<Rightarrow> subscribe_outcome) \<Rightarrow> mqtt_service \<times> action list" where
  "on_connect self rc now answer =
     (if rc = 0 then
        (self\<lparr>is_connected := True, connection_attempts := 0, last_connection_time := Some now\<rparr>,
         Log INFO ''MQTT client connected successfully'' # subscribe_to_topics answer)
      else
        (self\<lparr>is_connected := False\<rparr>,
         [Log ERROR (''MQTT connection failed: '' @ error_message rc)]))"

definition connect :: "mqtt_service \<Rightarrow> settings \<Rightarrow> connect_outcome \<Rightarrow> bool \<times> action list" where
  "connect self cfg outcome =
     (case client self of
        None \<Rightarrow> (False, [Log ERROR ''MQTT client not initialized''])
      | Some _ \<Rightarrow>
          (let begun =
                 [Log INFO (''Connecting to MQTT broker: '' @ mqtt_broker cfg @ '':''
                            @ str_int (mqtt_port cfg)),
                  ClientConnect (mqtt_broker cfg) (mqtt_port cfg) (mqtt_keepalive cfg)]
           in case outcome of
                ConnectRc result \<Rightarrow>
                  if result = MQTT_ERR_SUCCESS then (True, begun @ [LoopStart])
                  else (False, begun @ [Log ERROR (''Failed to connect to MQTT broker: ''
                                                   @ str_int result)])
              | ConnectRaises e \<Rightarrow>
                  (False, begun @ [Log ERROR (''MQTT connection error: '' @ e)])))"

definition on_disconnect ::
  "mqtt_service \<Rightarrow> settings \<Rightarrow> int \<Rightarrow> connect_outcome \<Rightarrow> mqtt_service \<times> action list" where
  "on_disconnect self cfg rc outcome =
     (let self1 = self\<lparr>is_connected := False\<rparr>;
          warned = [Log WARNING (''MQTT client disconnected (rc='' @ str_int rc @ '')'')]
      in if rc \<noteq> 0 \<and> connection_attempts self1 < max_connection_attempts self1 then
           (let self2 = self1\<lparr>connection_attempts := connection_attempts self1 + 1\<rparr>
            in (self2,
                warned @
                [Log INFO (''Attempting MQTT reconnection ('' @ str_int (connection_attempts self2)
                           @ ''/'' @ str_int (max_connection_attempts self2) @ '')''),
                 Sleep (reconnect_delay self2)] @
                snd (connect self2 cfg outcome)))
         else (self1, warned))"

definition disconnect :: "mqtt_service \<Rightarrow> disconnect_outcome \<Rightarrow> mqtt_service \<times> action list" where
  "disconnect self outcome =
     (if client self \<noteq> None \<and> is_connected self then
        (case outcome of
           Disconnected \<Rightarrow>
             (self\<lparr>is_connected := False\<rparr>,
              [LoopStop, ClientDisconnect, Log INFO ''MQTT client disconnected''])
         | LoopStopRaises e \<Rightarrow>
             (self, [LoopStop, Log ERROR (''Error disconnecting MQTT client: '' @ e)])
         | DisconnectRaises e \<Rightarrow>
             (self, [LoopStop, ClientDisconnect,
                     Log ERROR (''Error disconnecting MQTT client: '' @ e)]))
      else (self, []))"

text \<open>
  \<open>_on_message\<close>. A payload is a list of bytes, and a byte is a \<open>char\<close>. \<open>utf8_decode\<close>
  and \<open>json_loads\<close> stand for \<open>bytes.decode('utf-8')\<close> and \<open>json.loads\<close>. \<open>on_message_try\<close>
  is the body of the outer \<open>try\<close>, with how it ends: it runs to its end or to the
  \<open>return\<close>, or an exception of class \<open>Exception\<close> leaves it, or one outside that class.
  The outer \<open>except Exception\<close> logs the second and does not catch the third, which
  leaves \<open>_on_message\<close>: the last component of the result of \<open>on_message\<close>, \<open>None\<close> when
  the method returns. The assignment to \<open>last_message_time\<close> is the first statement and
  stays made whatever follows.
\<close>

datatype ending = Completed | RaisedException string | RaisedOther string

definition on_message_try ::
  "mqtt_service \<Rightarrow> int \<Rightarrow> (char list \<Rightarrow> decode_outcome) \<Rightarrow> (string \<Rightarrow> loads_outcome)
     \<Rightarrow> message \<Rightarrow> ending \<times> mqtt_service \<times> action list" where
  "on_message_try self now utf8_decode json_loads msg =
     (let self1 = self\<lparr>last_message_time := Some now\<rparr>
      in case utf8_decode (payload msg) of
           DecodeRaises e \<Rightarrow> (RaisedException e, self1, [])
         | Decoded text \<Rightarrow>
             (let received = [Log DEBUG ''Received MQTT message'']
              in case json_loads text of
                   JSONDecodeError \<Rightarrow>
                     (Completed, self1,
                      received @ [Log WARNING ''Invalid JSON payload received''])
                 | LoadsRaises e \<Rightarrow> (RaisedException e, self1, received)
                 | Loaded data \<Rightarrow>
                     (case message_handlers self1 (topic msg) of
                        Some handler \<Rightarrow>
                          (case handler data of
                             Returned \<Rightarrow> (Completed, self1, received)
                           | Raises e \<Rightarrow>
                               (Completed, self1,
                                received @
                                [Log ERROR (''Error in message handler for topic '' @ topic msg
                                            @ '': '' @ e)])
                           | Escapes e \<Rightarrow> (RaisedOther e, self1, received))
                      | None \<Rightarrow>
                          (Completed, self1,
                           received @ [Log DEBUG ''No handler registered for topic'']))))"

definition on_message ::
  "mqtt_service \<Rightarrow> int \<Rightarrow> (char list \<Rightarrow> decode_outcome) \<Rightarrow> (string \<Rightarrow> loads_outcome)
     \<Rightarrow> message \<Rightarrow> mqtt_service \<times> action list \<times> string option" where
  "on_message self now utf8_decode json_loads msg =
     (case on_message_try self now utf8_decode json_loads msg of
        (Completed, self1, acts) \<Rightarrow> (self1, acts, None)
      | (RaisedException e, self1, acts) \<Rightarrow>
          (self1, acts @ [Log ERROR (''Error processing MQTT message: '' @ e)], None)
      | (RaisedOther e, self1, acts) \<Rightarrow> (self1, acts, Some e))"

definition publish_order ::
  "mqtt_service \<Rightarrow> string \<Rightarrow> string \<Rightarrow> int \<Rightarrow> int \<Rightarrow> string \<Rightarrow> publish_outcome
     \<Rightarrow> bool \<times> action list" where
  "publish_order self order_id item_id slot_id quantity now_iso outcome =
     (if \<not> is_connected self then
        (False, [Log ERROR ''Cannot publish order: MQTT not connected''])
      else
        (let sent =
               [ClientPublish (''foodyeh/order/'' @ order_id)
                  [(''order_id'', JStr order_id), (''item_id'', JStr item_id),
                   (''slot_id'', JInt slot_id), (''quantity'', JInt quantity),
                   (''timestamp'', JStr now_iso), (''source'', JStr ''api'')]
                  1]
         in case outcome of
              PublishRc rc \<Rightarrow>
                if rc = MQTT_ERR_SUCCESS then
                  (True, sent @ [Log INFO ''Order published successfully''])
                else (False, sent @ [Log ERROR (''Failed to publish order: '' @ str_int rc)])
            | PublishRaises e \<Rightarrow>
                (False, sent @ [Log ERROR (''Error publishing order: '' @ e)])))"

definition publish_admin_command ::
  "mqtt_service \<Rightarrow> string \<Rightarrow> (string \<times> jval) list option \<Rightarrow> string \<Rightarrow> publish_outcome
     \<Rightarrow> bool \<times> action list" where
  "publish_admin_command self command parameters now_iso outcome =
     (if \<not> is_connected self then
        (False, [Log ERROR ''Cannot publish admin command: MQTT not connected''])
      else
        (let sent =
               [ClientPublish (''foodyeh/admin/'' @ command)
                  [(''command'', JStr command),
                   (''parameters'', JDict (case parameters of None \<Rightarrow> [] | Some ps \<Rightarrow> ps)),
                   (''timestamp'', JStr now_iso), (''source'', JStr ''api'')]
                  2]
         in case outcome of
              PublishRc rc \<Rightarrow>
                if rc = MQTT_ERR_SUCCESS then
                  (True, sent @ [Log INFO ''Admin command published successfully''])
                else
                  (False, sent @ [Log ERROR (''Failed to publish admin command: '' @ str_int rc)])
            | PublishRaises e \<Rightarrow>
                (False, sent @ [Log ERROR (''Error publishing admin command: '' @ e)])))"

definition register_message_handler ::
  "mqtt_service \<Rightarrow> string \<Rightarrow> (jval \<Rightarrow> handler_outcome) \<Rightarrow> mqtt_service \<times> action list" where
  "register_message_handler self t handler =
     (self\<lparr>message_handlers := (message_handlers self)(t \<mapsto> handler)\<rparr>,
      [Log INFO (''Registered message handler for topic: '' @ t)])"

definition is_healthy :: "mqtt_service \<Rightarrow> int \<Rightarrow> bool \<times> action list" where
  "is_healthy self now =
     (if \<not> is_connected self then (False, [])
      else
        (case last_message_time self of
           Some seen \<Rightarrow>
             if now - seen > 300 * 1000000 then
               (False, [Log WARNING ''No MQTT messages received recently''])
             else (True, [])
         | None \<Rightarrow> (True, [])))"

section \<open>Observations used to state the properties\<close>

text \<open>The events stored under a key, and their number as \<open>ZCARD\<close> reports it.\<close>

definition zset_of :: "store \<Rightarrow> string \<Rightarrow> (string \<times> int) list" where
  "zset_of st key = (case st key of None \<Rightarrow> [] | Some e \<Rightarrow> zmembers e)"

definition count_of :: "rate_limiter \<Rightarrow> string \<Rightarrow> int" where
  "count_of self key = (case redis self of None \<Rightarrow> 0 | Some (l, st) \<Rightarrow> zcard key st)"

text \<open>
  A stored set as earlier checks leave it at the instant \<open>now\<close>: every member once, every
  timestamp between 0 and \<open>now\<close>.
\<close>

definition recorded_by :: "int \<Rightarrow> (string \<times> int) list \<Rightarrow> bool" where
  "recorded_by now zs = (distinct (map fst zs) \<and> list_all (\<lambda>(m, s). 0 \<le> s \<and> s \<le> now) zs)"

text \<open>
  The count as the specification words it: the events whose timestamp lies in
  \<open>[now - windowSeconds, now]\<close>.
\<close>

definition spec_events_in_window :: "(string \<times> int) list \<Rightarrow> int \<Rightarrow> int \<Rightarrow> int" where
  "spec_events_in_window events now window_seconds =
     int (length (filter (\<lambda>(m, s). now - window_seconds \<le> s \<and> s \<le> now) events))"

text \<open>Successive checks of one key, each with its own clock reading; the decisions in order.\<close>

fun admit_seq :: "rate_limiter \<Rightarrow> string \<Rightarrow> int \<Rightarrow> int \<Rightarrow> int list \<Rightarrow> (bool \<times> int \<times> int) list" where
  "admit_seq self key lim window_seconds [] = []"
| "admit_seq self key lim window_seconds (t # ts) =
     (case is_rate_limited self key lim window_seconds t of
        Inl e \<Rightarrow> []
      | Inr (decision, self1) \<Rightarrow> decision # admit_seq self1 key lim window_seconds ts)"

text \<open>\<open>if x:\<close> on an optional string is false for \<open>None\<close> and for the empty string.\<close>

definition falsy :: "string option \<Rightarrow> bool" where
  "falsy v = (v = None \<or> v = Some [])"

text \<open>
  Successive \<open>_on_disconnect\<close> callbacks, each with its reason code and with what the
  reconnection it may start is answered; the actions of all of them in order.
\<close>

fun disconnects ::
  "mqtt_service \<Rightarrow> settings \<Rightarrow> (int \<times> connect_outcome) list \<Rightarrow> mqtt_service \<times> action list" where
  "disconnects self cfg [] = (self, [])"
| "disconnects self cfg (d # ds) =
     (case on_disconnect self cfg (fst d) (snd d) of
        (self1, acts) \<Rightarrow>
          (case disconnects self1 cfg ds of
             (self2, later) \<Rightarrow> (self2, acts @ later)))"

fun is_log :: "action \<Rightarrow> bool" where
  "is_log (Log l m) = True"
| "is_log a = False"

text \<open>The steps of a reconnection attempt: the wait and the call that opens the connection.\<close>

fun is_retry :: "action \<Rightarrow> bool" where
  "is_retry (Sleep d) = True"
| "is_retry (ClientConnect broker port keepalive) = True"
| "is_retry a = False"

text \<open>
  The state the specification calls FAILED, read from the fields the code keeps: not
  connected, and no attempt left in the budget.
\<close>

definition failed :: "mqtt_service \<Rightarrow> bool" where
  "failed self = (\<not> is_connected self \<and> \<not> connection_attempts self < max_connection_attempts self)"

section \<open>Concrete inputs\<close>

text \<open>The inputs at which the properties below are evaluated.\<close>

definition default_settings :: settings where
  "default_settings =
     \<lparr>rate_limit_per_minute = 60, rate_limit_per_hour = 1000, mqtt_broker = ''mqtt.foodyeh.io'',
      mqtt_port = 8883, mqtt_keepalive = 60, mqtt_client_id = ''foodyeh_api''\<rparr>"

definition ascii_decode :: "char list \<Rightarrow> decode_outcome" where
  "ascii_decode bs =
     (if list_all (\<lambda>b. of_char b < (128 :: nat)) bs then Decoded bs
      else DecodeRaises ''invalid start byte'')"

definition toy_loads :: "string \<Rightarrow> loads_outcome" where
  "toy_loads text =
     (if text = ''null'' then Loaded JNull
      else if text = ''{}'' then Loaded (JDict [])
      else if text = ''false'' then Loaded (JBool False)
      else if text = ''[[[['' then LoadsRaises ''maximum recursion depth exceeded''
      else JSONDecodeError)"

definition status_message :: "string \<Rightarrow> message" where
  "status_message text = \<lparr>topic = ''foodyeh/status'', payload = text\<rparr>"

definition heartbeat_message :: "string \<Rightarrow> message" where
  "heartbeat_message text = \<lparr>topic = ''foodyeh/heartbeat'', payload = text\<rparr>"

definition fresh_service :: mqtt_service where
  "fresh_service = fst (MQTTService_init default_settings 0)"

definition connected_service :: mqtt_service where
  "connected_service = fst (on_connect fresh_service 0 1000000 (\<lambda>t. SubscribeRc 0))"

definition picky_handler :: "jval \<Rightarrow> handler_outcome" where
  "picky_handler data =
     (if data = JNull then Raises ''no data''
      else if data = JBool False then Escapes ''SystemExit''
      else Returned)"

definition picky_service :: mqtt_service where
  "picky_service =
     fst (register_message_handler connected_service ''foodyeh/status'' picky_handler)"

definition request_of :: "(string \<times> string) list \<Rightarrow> string option \<Rightarrow> request" where
  "request_of hs peer = \<lparr>headers = map_of hs, req_client = peer\<rparr>"

definition store_of :: "(string \<times> (string \<times> int) list) list \<Rightarrow> store" where
  "store_of kvs = map_of (map (\<lambda>(k, zs). (k, \<lparr>zmembers = zs, zttl = Some 60\<rparr>)) kvs)"

definition busy_limiter :: rate_limiter where
  "busy_limiter =
     RateLimiter_init Up
       (store_of [(''rate_limit:ip:1.2.3.4:minute'', [(''60'', 60)]),
                  (''rate_limit:ip:1.2.3.4:hour'', [(''60'', 60)])])"

definition plain_request :: request where
  "plain_request = request_of [] (Some ''1.2.3.4'')"

definition bearer_request :: request where
  "bearer_request = request_of [(''Authorization'', ''Bearer abc'')] (Some ''1.2.3.4'')"

definition hex_of :: "string \<Rightarrow> string" where
  "hex_of token = ''h-'' @ token"

definition six_drops :: "(int \<times> connect_outcome) list" where
  "six_drops =
     [(1, ConnectRc 0), (7, ConnectRaises ''timed out''), (1, ConnectRc 0),
      (1, ConnectRc 1), (7, ConnectRc 0), (1, ConnectRc 0)]"

section \<open>Auxiliary facts\<close>

lemmas store_defs = zremrangebyscore_def zadd_def zcard_def expire_def delete_def

lemmas str_defs = str_int_def str_nat.simps digit_char_def

subsection \<open>Strings\<close>

lemma split_on_first: "\<exists>ps. split_on c s = takeWhile (\<lambda>x. x \<noteq> c) s # ps"
  by (induction s) (auto split: list.splits)

lemma split_on_nonempty: "split_on c s \<noteq> []"
  using split_on_first [of c s] by auto

lemma bearer_split:
  assumes "startswith s ''Bearer ''"
  shows "\<exists>t ps. split_on CHR '' '' s = ''Bearer'' # t # ps"
proof -
  from assms have "take (length ''Bearer '') s = ''Bearer ''"
    by (simp only: startswith_def)
  then obtain rest where s: "s = ''Bearer '' @ rest"
    by (metis append_take_drop_id)
  obtain t ps where "split_on CHR '' '' rest = t # ps"
    using split_on_first by blast
  then have "split_on CHR '' '' (''Bearer '' @ rest) = ''Bearer'' # t # ps"
    by simp
  with s show ?thesis by blast
qed

text \<open>The two lookups in the request return for every request: no index is out of range.\<close>

lemma get_client_ip_returns: "\<exists>ip. get_client_ip request = Inr ip"
  by (auto simp: get_client_ip_def Let_def split_on_nonempty split: option.splits list.splits)

lemma get_token_from_request_returns: "\<exists>token. get_token_from_request request = Inr token"
proof (cases "headers request ''Authorization''")
  case None
  then show ?thesis by (simp add: get_token_from_request_def)
next
  case (Some auth_header)
  show ?thesis
  proof (cases "auth_header \<noteq> [] \<and> startswith auth_header ''Bearer ''")
    case True
    then obtain t ps where "split_on CHR '' '' auth_header = ''Bearer'' # t # ps"
      using bearer_split by blast
    with Some True show ?thesis by (simp add: get_token_from_request_def)
  next
    case False
    with Some show ?thesis by (auto simp: get_token_from_request_def)
  qed
qed

lemma token_key_not_ip_key:
  "generate_key ''token'' a w \<noteq> generate_key ''ip'' b w'"
  by (simp add: generate_key_def)

subsection \<open>Sorted sets\<close>

lemma update_has: "(k, v) \<in> set (AList.update k v al)"
  by (induction al) auto

lemma set_update_distinct:
  "distinct (map fst al) \<Longrightarrow>
     set (AList.update k v al) = insert (k, v) {p \<in> set al. fst p \<noteq> k}"
  by (induction al) (auto simp: rev_image_eqI)

lemma distinct_filter_keys: "distinct (map fst al) \<Longrightarrow> distinct (map fst (filter P al))"
  by (induction al) auto

lemma zset_of_upd [simp]:
  "zset_of (st(k \<mapsto> e)) k' = (if k' = k then zmembers e else zset_of st k')"
  by (simp add: zset_of_def)

lemma zentry_rebuilt [simp]:
  "(e :: zentry)\<lparr>zmembers := ms, zttl := t\<rparr> = \<lparr>zmembers = ms, zttl = t\<rparr>"
  by (cases e) simp

text \<open>What one check does to the store, when the limiter has a handle and the window is positive.\<close>

lemma is_rate_limited_effect:
  fixes self :: rate_limiter and st :: store and key :: string and now window_seconds lim :: int
  defines "zs \<equiv> AList.update (str_int now) now
                  (filter (\<lambda>(m, s). \<not> (0 \<le> s \<and> s \<le> now - now mod window_seconds - 1))
                     (zset_of st key))"
  assumes "redis self = Some (Up, st)" and "0 < window_seconds"
  shows "is_rate_limited self key lim window_seconds now
         = Inr ((lim < int (length zs), int (length zs), window_seconds - now mod window_seconds),
                self\<lparr>redis := Some (Up, st(key \<mapsto> \<lparr>zmembers = zs, zttl = Some window_seconds\<rparr>))\<rparr>)"
  using assms(2,3) unfolding zs_def
  by (auto simp: is_rate_limited_def store_defs zset_of_def Let_def split: option.splits)

lemma admit_present:
  assumes "redis self = Some (Up, st)" and "0 < window_seconds"
  shows "\<exists>l c r st'. is_rate_limited self key lim window_seconds now
                         = Inr ((l, c, r), self\<lparr>redis := Some (Up, st')\<rparr>)
           \<and> (\<forall>k. k \<noteq> key \<longrightarrow> st' k = st k)
           \<and> (str_int now, now) \<in> set (zset_of st' key)"
  unfolding is_rate_limited_effect [OF assms, of key lim now]
  by (intro exI conjI, rule refl) (simp_all add: update_has)

lemma admit_fresh_key:
  assumes "redis self = Some (Up, st)" and "st key = None" and "0 < window_seconds"
  shows "is_rate_limited self key lim window_seconds now
         = Inr ((lim < 1, 1, window_seconds - now mod window_seconds),
                self\<lparr>redis := Some (Up, st(key \<mapsto> \<lparr>zmembers = [(str_int now, now)],
                                                  zttl = Some window_seconds\<rparr>))\<rparr>)"
  using is_rate_limited_effect [OF assms(1,3), of key lim now] assms(2)
  by (simp add: zset_of_def)

text \<open>
  Checks of one key within one clock second store their event under one member: however
  many they are, on a key that is fresh or holds that second's event only, each reads the
  count 1.
\<close>

lemma same_second_counts_once:
  assumes "redis self = Some (Up, st)" and "0 < window_seconds"
    and "zset_of st key = [] \<or> zset_of st key = [(str_int now, now)]"
  shows "admit_seq self key lim window_seconds (replicate n now)
           = replicate n (lim < 1, 1, window_seconds - now mod window_seconds)"
  using assms
proof (induction n arbitrary: self st)
  case 0
  then show ?case by simp
next
  case (Suc n)
  let ?zs = "AList.update (str_int now) now
               (filter (\<lambda>(m, s). \<not> (0 \<le> s \<and> s \<le> now - now mod window_seconds - 1))
                  (zset_of st key))"
  let ?st' = "st(key \<mapsto> \<lparr>zmembers = ?zs, zttl = Some window_seconds\<rparr>)"
  have "0 \<le> now mod window_seconds"
    using Suc.prems(2) by simp
  then have zs: "?zs = [(str_int now, now)]"
    using Suc.prems(3) by auto
  have "is_rate_limited self key lim window_seconds now
         = Inr ((lim < int (length ?zs), int (length ?zs),
                 window_seconds - now mod window_seconds),
                self\<lparr>redis := Some (Up, ?st')\<rparr>)"
    by (rule is_rate_limited_effect [OF Suc.prems(1,2)])
  then have step: "is_rate_limited self key lim window_seconds now
         = Inr ((lim < 1, 1, window_seconds - now mod window_seconds),
                self\<lparr>redis := Some (Up, ?st')\<rparr>)"
    unfolding zs by simp
  have next_set: "zset_of ?st' key = [] \<or> zset_of ?st' key = [(str_int now, now)]"
    unfolding zs by simp
  have r: "redis (self\<lparr>redis := Some (Up, ?st')\<rparr>) = Some (Up, ?st')"
    by simp
  show ?case
    using Suc.IH [OF r Suc.prems(2) next_set] by (simp add: step)
qed

subsection \<open>Disconnections\<close>

lemma not_connected_unchanged: "\<not> is_connected self \<Longrightarrow> self\<lparr>is_connected := False\<rparr> = self"
  by (cases self) simp

lemma connect_retry_steps:
  assumes "client self \<noteq> None"
  shows "filter is_retry (snd (connect self cfg outcome))
           = [ClientConnect (mqtt_broker cfg) (mqtt_port cfg) (mqtt_keepalive cfg)]"
  using assms
  by (auto simp: connect_def Let_def split: option.splits connect_outcome.splits)

lemma on_disconnect_retry:
  assumes "rc \<noteq> 0" and "connection_attempts self < max_connection_attempts self"
    and "client self \<noteq> None"
  shows "fst (on_disconnect self cfg rc outcome)
           = self\<lparr>is_connected := False, connection_attempts := connection_attempts self + 1\<rparr>"
    and "filter is_retry (snd (on_disconnect self cfg rc outcome))
           = [Sleep (reconnect_delay self),
              ClientConnect (mqtt_broker cfg) (mqtt_port cfg) (mqtt_keepalive cfg)]"
  using assms connect_retry_steps [of "self\<lparr>is_connected := False,
      connection_attempts := connection_attempts self + 1\<rparr>" cfg outcome]
  by (simp_all add: on_disconnect_def Let_def)

lemma on_disconnect_no_retry:
  assumes "rc = 0 \<or> \<not> connection_attempts self < max_connection_attempts self"
  shows "on_disconnect self cfg rc outcome
           = (self\<lparr>is_connected := False\<rparr>,
              [Log WARNING (''MQTT client disconnected (rc='' @ str_int rc @ '')'')])"
  using assms by (auto simp: on_disconnect_def Let_def)

text \<open>
  A run of unexpected disconnections uses up what is left of the budget, one attempt per
  disconnection, and touches nothing else but the connection flag.
\<close>

lemma disconnects_budget:
  assumes "list_all (\<lambda>d. fst d \<noteq> 0) ds" and "client self \<noteq> None"
    and "connection_attempts self \<le> max_connection_attempts self"
  shows "connection_attempts (fst (disconnects self cfg ds))
           = connection_attempts self
             + int (min (length ds) (nat (max_connection_attempts self - connection_attempts self)))
       \<and> filter is_retry (snd (disconnects self cfg ds))
           = concat (replicate
               (min (length ds) (nat (max_connection_attempts self - connection_attempts self)))
               [Sleep (reconnect_delay self),
                ClientConnect (mqtt_broker cfg) (mqtt_port cfg) (mqtt_keepalive cfg)])
       \<and> max_connection_attempts (fst (disconnects self cfg ds)) = max_connection_attempts self
       \<and> reconnect_delay (fst (disconnects self cfg ds)) = reconnect_delay self
       \<and> client (fst (disconnects self cfg ds)) = client self
       \<and> (ds \<noteq> [] \<longrightarrow> \<not> is_connected (fst (disconnects self cfg ds)))"
  using assms
proof (induction ds arbitrary: self)
  case Nil
  then show ?case by simp
next
  case (Cons d ds)
  let ?s1 = "fst (on_disconnect self cfg (fst d) (snd d))"
  let ?a1 = "snd (on_disconnect self cfg (fst d) (snd d))"
  have step: "disconnects self cfg (d # ds)
                = (fst (disconnects ?s1 cfg ds), ?a1 @ snd (disconnects ?s1 cfg ds))"
    by (simp add: case_prod_unfold)
  have rc: "fst d \<noteq> 0" and rest: "list_all (\<lambda>d. fst d \<noteq> 0) ds"
    using Cons.prems(1) by simp_all
  show ?case
  proof (cases "connection_attempts self < max_connection_attempts self")
    case True
    have s1: "?s1 = self\<lparr>is_connected := False,
                          connection_attempts := connection_attempts self + 1\<rparr>"
      and a1: "filter is_retry ?a1
                 = [Sleep (reconnect_delay self),
                    ClientConnect (mqtt_broker cfg) (mqtt_port cfg) (mqtt_keepalive cfg)]"
      using on_disconnect_retry [OF rc True Cons.prems(2)] by simp_all
    have pre: "client ?s1 \<noteq> None" "connection_attempts ?s1 \<le> max_connection_attempts ?s1"
      using Cons.prems(2) True by (simp_all add: s1)
    have n: "min (length (d # ds)) (nat (max_connection_attempts self - connection_attempts self))
               = Suc (min (length ds)
                        (nat (max_connection_attempts ?s1 - connection_attempts ?s1)))"
    proof -
      have "nat (max_connection_attempts self - connection_attempts self)
              = Suc (nat (max_connection_attempts self - (connection_attempts self + 1)))"
        using True by arith
      then show ?thesis by (simp add: s1)
    qed
    have fields: "connection_attempts ?s1 = connection_attempts self + 1"
      "max_connection_attempts ?s1 = max_connection_attempts self"
      "reconnect_delay ?s1 = reconnect_delay self" "client ?s1 = client self"
      by (simp_all add: s1)
    have down: "\<not> is_connected ?s1"
      by (simp add: s1)
    note ih = Cons.IH [OF rest pre, unfolded fields]
    show ?thesis
      unfolding step n fields fst_conv snd_conv filter_append a1
      using ih down by (cases ds) simp_all
  next
    case False
    have s1: "?s1 = self\<lparr>is_connected := False\<rparr>" and a1: "filter is_retry ?a1 = []"
      using on_disconnect_no_retry [of "fst d" self cfg "snd d"] False by simp_all
    have pre: "client ?s1 \<noteq> None" "connection_attempts ?s1 \<le> max_connection_attempts ?s1"
      using Cons.prems(2,3) by (simp_all add: s1)
    have n: "nat (max_connection_attempts self - connection_attempts self) = 0"
      "nat (max_connection_attempts ?s1 - connection_attempts ?s1) = 0"
      using False by (simp_all add: s1)
    have fields: "connection_attempts ?s1 = connection_attempts self"
      "max_connection_attempts ?s1 = max_connection_attempts self"
      "reconnect_delay ?s1 = reconnect_delay self" "client ?s1 = client self"
      "\<not> is_connected ?s1"
      by (simp_all add: s1)
    note ih = Cons.IH [OF rest pre, unfolded fields n]
    have stay: "fst (disconnects ?s1 cfg ds) = ?s1" if "ds = []"
      using that by simp
    show ?thesis
      unfolding step n(1) fst_conv snd_conv filter_append a1
      using ih fields(5) stay by (cases ds) simp_all
  qed
qed

section \<open>Properties of the rate limiter\<close>

text \<open>
  C2. The limiter fails open where its constructor found the store unreachable and kept no
  handle (\<open>admit_without_handle\<close> below). A limiter constructed while the store answered
  keeps its handle. When the store stops answering afterwards, \<open>pipe.execute()\<close> raises
  \<open>ConnectionError\<close>; \<open>_is_rate_limited\<close> has no handler for it and neither has
  \<open>check_rate_limit\<close>, so the check does not return "allowed": the exception reaches the
  caller. Here the limiter has served one request of second 60 before the store went
  down, and checks a request of second 61.
\<close>

theorem store_lost_after_start_raises:
  "redis (store_goes_down busy_limiter) \<noteq> None
   \<and> is_rate_limited (store_goes_down busy_limiter) ''rate_limit:ip:1.2.3.4:minute'' 60 60 61
       = Inl ConnectionError
   \<and> check_rate_limit (store_goes_down busy_limiter) default_settings hex_of plain_request
        None None (\<lambda>k. 61)
       = (Some ConnectionError, store_goes_down busy_limiter)"
  by (simp add: store_goes_down_def busy_limiter_def RateLimiter_init_def is_rate_limited_def
      check_rate_limit_def get_client_ip_def get_token_from_request_def plain_request_def
      request_of_def default_settings_def or_default_def Let_def)

text \<open>
  What holds: without a handle, whatever the key, the limit, the window, the request and
  the clock, \<open>_is_rate_limited\<close> answers "not limited" with count 0, \<open>check_rate_limit\<close>
  returns without raising, and the limiter is left as it was. With a handle and a store
  that does not answer, both raise \<open>ConnectionError\<close> for every window that is not zero.
\<close>

lemma admit_without_handle:
  assumes "redis self = None"
  shows "is_rate_limited self key lim window_seconds current_time = Inr ((False, 0, 0), self)
       \<and> check_rate_limit self cfg token_hash request limit_per_minute limit_per_hour tm
           = (None, self)"
  using assms by (simp add: is_rate_limited_def check_rate_limit_def)

lemma admit_with_store_down:
  assumes "redis self = Some (Down, st)"
  shows "window_seconds \<noteq> 0 \<Longrightarrow>
           is_rate_limited self key lim window_seconds current_time = Inl ConnectionError"
    and "check_rate_limit self cfg token_hash request limit_per_minute limit_per_hour tm
           = (Some ConnectionError, self)"
proof -
  show "window_seconds \<noteq> 0 \<Longrightarrow>
          is_rate_limited self key lim window_seconds current_time = Inl ConnectionError"
    using assms by (simp add: is_rate_limited_def)
  obtain ip token where "get_client_ip request = Inr ip"
    and "get_token_from_request request = Inr token"
    using get_client_ip_returns get_token_from_request_returns by blast
  then show "check_rate_limit self cfg token_hash request limit_per_minute limit_per_hour tm
           = (Some ConnectionError, self)"
    using assms by (simp add: check_rate_limit_def is_rate_limited_def Let_def)
qed

text \<open>
  C1. Every check records its event under the member \<open>str(current_time)\<close>, so the checks
  of one clock second share one member and the set does not grow (for any number of
  checks: \<open>same_second_counts_once\<close>). Four checks of a fresh key in the second 1000, with
  limit 3 and a window of 60 seconds: each of them reads the count 1, and the fourth is
  admitted like the first three.
\<close>

theorem four_calls_in_one_second_all_admitted:
  "admit_seq (RateLimiter_init Up Map.empty) (generate_key ''ip'' ''1.2.3.4'' ''minute'') 3 60
     [1000, 1000, 1000, 1000]
   = [(False, 1, 20), (False, 1, 20), (False, 1, 20), (False, 1, 20)]"
  by (simp add: is_rate_limited_def RateLimiter_init_def generate_key_def store_defs str_defs
      Let_def)

text \<open>
  C5, as amended. One check at the instant \<open>now\<close> with a window of \<open>windowSeconds\<close>, on a
  set as earlier checks leave it, (1) removes exactly the events with a timestamp before
  the start \<open>now - now mod windowSeconds\<close> of the running wall-clock window, (2) stores the
  event \<open>(str(now), now)\<close>, (3) reads the resulting cardinality and (4) sets the key's
  expiry to \<open>windowSeconds\<close>; no other key is touched. So the count reported is the number
  of events stored under the key after the insertion, and each of them has its timestamp
  between the start of the running window and \<open>now\<close>.
\<close>

theorem admit_round_trip:
  assumes "redis self = Some (Up, st)" and "0 < window_seconds" and "0 \<le> now"
    and "recorded_by now (zset_of st key)"
  shows "\<exists>count st'.
     is_rate_limited self key lim window_seconds now
       = Inr ((lim < count, count, window_seconds - now mod window_seconds),
              self\<lparr>redis := Some (Up, st')\<rparr>)
     \<and> (\<forall>m s. (m, s) \<in> set (zset_of st' key) \<longleftrightarrow>
                (m, s) = (str_int now, now)
                \<or> (m \<noteq> str_int now \<and> (m, s) \<in> set (zset_of st key)
                    \<and> now - now mod window_seconds \<le> s))
     \<and> count = int (card (set (zset_of st' key)))
     \<and> list_all (\<lambda>(m, s). now - now mod window_seconds \<le> s \<and> s \<le> now) (zset_of st' key)
     \<and> recorded_by now (zset_of st' key)
     \<and> (case st' key of None \<Rightarrow> False | Some e \<Rightarrow> zttl e = Some window_seconds)
     \<and> (\<forall>k. k \<noteq> key \<longrightarrow> st' k = st k)"
proof -
  define ws where "ws = now - now mod window_seconds"
  define kept where "kept = filter (\<lambda>(m, s). \<not> (0 \<le> s \<and> s \<le> ws - 1)) (zset_of st key)"
  define zs where "zs = AList.update (str_int now) now kept"
  define st' where "st' = st(key \<mapsto> \<lparr>zmembers = zs, zttl = Some window_seconds\<rparr>)"
  have dist: "distinct (map fst (zset_of st key))"
    and range: "\<And>m s. (m, s) \<in> set (zset_of st key) \<Longrightarrow> 0 \<le> s \<and> s \<le> now"
    using assms(4) by (auto simp: recorded_by_def list_all_iff)
  have ws_le: "ws \<le> now" and ws_ge: "0 \<le> ws"
    using assms(2,3) by (simp_all add: ws_def mod_int_pos_iff zmod_le_nonneg_dividend)
  have kept_dist: "distinct (map fst kept)"
    unfolding kept_def using dist by (rule distinct_filter_keys)
  have zs_dist: "distinct (map fst zs)"
    unfolding zs_def using kept_dist by (rule distinct_update)
  have zs_set: "set zs = insert (str_int now, now) {p \<in> set kept. fst p \<noteq> str_int now}"
    unfolding zs_def using kept_dist by (rule set_update_distinct)
  have kept_set: "(m, s) \<in> set kept \<longleftrightarrow> (m, s) \<in> set (zset_of st key) \<and> ws \<le> s" for m s
    using range [of m s] by (auto simp: kept_def)
  have members: "(m, s) \<in> set zs \<longleftrightarrow>
      (m, s) = (str_int now, now) \<or> (m \<noteq> str_int now \<and> (m, s) \<in> set (zset_of st key) \<and> ws \<le> s)"
    for m s
    by (auto simp: zs_set kept_set)
  have count: "int (length zs) = int (card (set zs))"
    using zs_dist by (simp add: distinct_card distinct_map)
  have inside: "list_all (\<lambda>(m, s). ws \<le> s \<and> s \<le> now) zs"
    using members range ws_le by (auto simp: list_all_iff)
  have recorded: "recorded_by now zs"
    using zs_dist inside ws_ge by (auto simp: recorded_by_def list_all_iff)
  have run: "is_rate_limited self key lim window_seconds now
       = Inr ((lim < int (length zs), int (length zs), window_seconds - now mod window_seconds),
              self\<lparr>redis := Some (Up, st')\<rparr>)"
    using is_rate_limited_effect [OF assms(1,2), of key lim now]
    by (simp add: st'_def zs_def kept_def ws_def)
  have "zset_of st' key = zs" and "st' key = Some \<lparr>zmembers = zs, zttl = Some window_seconds\<rparr>"
    and "\<And>k. k \<noteq> key \<Longrightarrow> st' k = st k"
    by (simp_all add: st'_def)
  with run members count inside recorded show ?thesis
    unfolding ws_def [symmetric] by (intro exI [of _ "int (length zs)"] exI [of _ st']) simp
qed

theorem admit_round_trip_witness:
  "is_rate_limited (RateLimiter_init Up (store_of [(''k'', [(''100'', 100), (''125'', 125)])]))
     ''k'' 5 60 130
   = Inr ((False, 2, 50),
          RateLimiter_init Up (store_of [(''k'', [(''125'', 125), (''130'', 130)])]))"
proof -
  let ?st = "store_of [(''k'', [(''100'', 100), (''125'', 125)])]"
  have h1: "redis (RateLimiter_init Up ?st) = Some (Up, ?st)"
    by (simp add: RateLimiter_init_def)
  have h2: "(0::int) < 60" and h3: "(0::int) \<le> 130"
    by simp_all
  have h4: "recorded_by 130 (zset_of ?st ''k'')"
    by (simp add: recorded_by_def zset_of_def store_of_def)
  have run: "is_rate_limited (RateLimiter_init Up ?st) ''k'' 5 60 130
     = Inr ((False, 2, 50),
            RateLimiter_init Up (store_of [(''k'', [(''125'', 125), (''130'', 130)])]))"
    by (simp add: RateLimiter_init_def store_of_def is_rate_limited_def store_defs str_defs)
  show ?thesis
    using admit_round_trip [OF h1 h2 h3 h4, of 5] run by simp
qed

text \<open>
  C5 as stated fails at \<open>now = 120\<close> with a window of 60 seconds and one stored event of
  second 100: the event is not older than \<open>now - 60\<close>, and it is removed; the count
  reported is 1, and two events have their timestamp in \<open>[60, 120]\<close>.
\<close>

theorem aligned_window_counterexample:
  "is_rate_limited (RateLimiter_init Up (store_of [(''k'', [(''100'', 100)])])) ''k'' 5 60 120
     = Inr ((False, 1, 60), RateLimiter_init Up (store_of [(''k'', [(''120'', 120)])]))
   \<and> spec_events_in_window [(''100'', 100), (''120'', 120)] 120 60 = 2"
  by (simp add: RateLimiter_init_def store_of_def is_rate_limited_def store_defs str_defs
      spec_events_in_window_def)

text \<open>
  C6, as amended. The facade checks the IP windows as a pair: the minute window, then the
  hour window, each recording the request, and only then reports a denial, the minute
  window's first. The token windows are checked only when neither IP window denied and
  the request carries a non-empty token, again as a pair with the minute window reported
  first. A denial by an IP window leaves every token counter as it was.
\<close>

theorem facade_checks_in_pairs:
  assumes "redis self = Some (Up, st)"
    and "get_client_ip request = Inr client_ip"
    and "get_token_from_request request = Inr token"
    and "lpm = or_default limit_per_minute (rate_limit_per_minute cfg)"
    and "lph = or_default limit_per_hour (rate_limit_per_hour cfg)"
  shows "\<exists>lm cm rm self1 lh ch rh self2.
      is_rate_limited self (generate_key ''ip'' client_ip ''minute'') lpm 60 (tm 0)
        = Inr ((lm, cm, rm), self1)
    \<and> is_rate_limited self1 (generate_key ''ip'' client_ip ''hour'') lph 3600 (tm 1)
        = Inr ((lh, ch, rh), self2)
    \<and> (lm \<longrightarrow> check_rate_limit self cfg token_hash request limit_per_minute limit_per_hour tm
               = (Some (too_many ''Rate limit exceeded'' ''per_minute'' lpm cm rm), self2))
    \<and> (\<not> lm \<and> lh \<longrightarrow>
          check_rate_limit self cfg token_hash request limit_per_minute limit_per_hour tm
            = (Some (too_many ''Rate limit exceeded'' ''per_hour'' lph ch rh), self2))
    \<and> (\<not> lm \<and> \<not> lh \<and> falsy token \<longrightarrow>
          check_rate_limit self cfg token_hash request limit_per_minute limit_per_hour tm
            = (None, self2))
    \<and> (\<forall>tok. \<not> lm \<and> \<not> lh \<and> token = Some tok \<and> tok \<noteq> [] \<longrightarrow>
          (\<exists>ltm ctm rtm self3 lth cth rth self4.
              is_rate_limited self2 (generate_key ''token'' (token_hash tok) ''minute'') lpm 60 (tm 2)
                = Inr ((ltm, ctm, rtm), self3)
            \<and> is_rate_limited self3 (generate_key ''token'' (token_hash tok) ''hour'') lph 3600 (tm 3)
                = Inr ((lth, cth, rth), self4)
            \<and> check_rate_limit self cfg token_hash request limit_per_minute limit_per_hour tm
                = (if ltm then
                     Some (too_many ''Token rate limit exceeded'' ''per_minute'' lpm ctm rtm)
                   else if lth then
                     Some (too_many ''Token rate limit exceeded'' ''per_hour'' lph cth rth)
                   else None,
                   self4)))
    \<and> (\<forall>ident w. count_of self2 (generate_key ''token'' ident w)
                   = count_of self (generate_key ''token'' ident w))"
proof -
  let ?km = "generate_key ''ip'' client_ip ''minute''"
  let ?kh = "generate_key ''ip'' client_ip ''hour''"
  obtain lm cm rm st1 where
    m: "is_rate_limited self ?km lpm 60 (tm 0) = Inr ((lm, cm, rm), self\<lparr>redis := Some (Up, st1)\<rparr>)"
    and m_frame: "\<And>k. k \<noteq> ?km \<Longrightarrow> st1 k = st k"
    using admit_present [OF assms(1), of 60 ?km lpm "tm 0"] by auto
  let ?self1 = "self\<lparr>redis := Some (Up, st1)\<rparr>"
  have r1: "redis ?self1 = Some (Up, st1)" by simp
  obtain lh ch rh st2 where
    h: "is_rate_limited ?self1 ?kh lph 3600 (tm 1) = Inr ((lh, ch, rh), self\<lparr>redis := Some (Up, st2)\<rparr>)"
    and h_frame: "\<And>k. k \<noteq> ?kh \<Longrightarrow> st2 k = st1 k"
    using admit_present [OF r1, of 3600 ?kh lph "tm 1"] by auto
  let ?self2 = "self\<lparr>redis := Some (Up, st2)\<rparr>"
  have r2: "redis ?self2 = Some (Up, st2)" by simp
  have ip: "check_rate_limit self cfg token_hash request limit_per_minute limit_per_hour tm =
      (if lm then (Some (too_many ''Rate limit exceeded'' ''per_minute'' lpm cm rm), ?self2)
       else if lh then (Some (too_many ''Rate limit exceeded'' ''per_hour'' lph ch rh), ?self2)
       else (case token of
               None \<Rightarrow> (None, ?self2)
             | Some tok \<Rightarrow>
                 if tok = [] then (None, ?self2)
                 else check_token_limits ?self2 token_hash tok lpm lph tm))"
    using assms m h by (simp add: check_rate_limit_def Let_def split: option.splits)
  have token_part: "\<exists>ltm ctm rtm self3 lth cth rth self4.
      is_rate_limited ?self2 (generate_key ''token'' (token_hash tok) ''minute'') lpm 60 (tm 2)
        = Inr ((ltm, ctm, rtm), self3)
    \<and> is_rate_limited self3 (generate_key ''token'' (token_hash tok) ''hour'') lph 3600 (tm 3)
        = Inr ((lth, cth, rth), self4)
    \<and> check_token_limits ?self2 token_hash tok lpm lph tm
        = (if ltm then Some (too_many ''Token rate limit exceeded'' ''per_minute'' lpm ctm rtm)
           else if lth then Some (too_many ''Token rate limit exceeded'' ''per_hour'' lph cth rth)
           else None,
           self4)" for tok
  proof -
    let ?tm = "generate_key ''token'' (token_hash tok) ''minute''"
    let ?th = "generate_key ''token'' (token_hash tok) ''hour''"
    obtain ltm ctm rtm st3 where
      a: "is_rate_limited ?self2 ?tm lpm 60 (tm 2) = Inr ((ltm, ctm, rtm), self\<lparr>redis := Some (Up, st3)\<rparr>)"
      using admit_present [OF r2, of 60 ?tm lpm "tm 2"] by auto
    let ?self3 = "self\<lparr>redis := Some (Up, st3)\<rparr>"
    have r3: "redis ?self3 = Some (Up, st3)" by simp
    obtain lth cth rth st4 where
      b: "is_rate_limited ?self3 ?th lph 3600 (tm 3) = Inr ((lth, cth, rth), self\<lparr>redis := Some (Up, st4)\<rparr>)"
      using admit_present [OF r3, of 3600 ?th lph "tm 3"] by auto
    have "check_token_limits ?self2 token_hash tok lpm lph tm
        = (if ltm then Some (too_many ''Token rate limit exceeded'' ''per_minute'' lpm ctm rtm)
           else if lth then Some (too_many ''Token rate limit exceeded'' ''per_hour'' lph cth rth)
           else None,
           self\<lparr>redis := Some (Up, st4)\<rparr>)"
      using a b by (simp add: check_token_limits_def Let_def)
    with a b show ?thesis by blast
  qed
  have frame: "count_of ?self2 (generate_key ''token'' ident w)
                 = count_of self (generate_key ''token'' ident w)" for ident w
    using assms(1) m_frame [of "generate_key ''token'' ident w"]
      h_frame [of "generate_key ''token'' ident w"]
    by (simp add: count_of_def zcard_def token_key_not_ip_key)
  show ?thesis
    apply (rule exI [of _ lm], rule exI [of _ cm], rule exI [of _ rm], rule exI [of _ ?self1])
    apply (rule exI [of _ lh], rule exI [of _ ch], rule exI [of _ rh], rule exI [of _ ?self2])
    apply (intro conjI)
    subgoal using m .
    subgoal using h .
    subgoal by (simp add: ip)
    subgoal by (simp add: ip)
    subgoal by (auto simp: ip falsy_def)
    subgoal using token_part by (auto simp: ip)
    subgoal using frame by blast
    done
qed

theorem facade_checks_in_pairs_witness:
  "fst (check_rate_limit busy_limiter default_settings hex_of plain_request (Some 1) (Some 100)
          (\<lambda>k. 61))
     = Some (too_many ''Rate limit exceeded'' ''per_minute'' 1 2 59)
   \<and> fst (check_rate_limit busy_limiter default_settings hex_of plain_request (Some 5) (Some 1)
            (\<lambda>k. 61))
       = Some (too_many ''Rate limit exceeded'' ''per_hour'' 1 2 3539)
   \<and> fst (check_rate_limit busy_limiter default_settings hex_of plain_request (Some 5) None
            (\<lambda>k. 61))
       = None
   \<and> fst (check_rate_limit busy_limiter default_settings hex_of bearer_request (Some 5) None
            (\<lambda>k. 61))
       = None
   \<and> count_of (snd (check_rate_limit busy_limiter default_settings hex_of bearer_request
                       (Some 5) None (\<lambda>k. 61)))
        ''rate_limit:token:h-abc:hour'' = 1"
proof -
  let ?st = "store_of [(''rate_limit:ip:1.2.3.4:minute'', [(''60'', 60)]),
                       (''rate_limit:ip:1.2.3.4:hour'', [(''60'', 60)])]"
  have r: "redis busy_limiter = Some (Up, ?st)"
    by (simp add: busy_limiter_def RateLimiter_init_def)
  have ip: "get_client_ip plain_request = Inr ''1.2.3.4''"
    "get_client_ip bearer_request = Inr ''1.2.3.4''"
    by code_simp+
  have tok: "get_token_from_request plain_request = Inr None"
    "get_token_from_request bearer_request = Inr (Some ''abc'')"
    by code_simp+
  have run: ?thesis
    by code_simp
  note inst = facade_checks_in_pairs [where cfg = default_settings and tm = "\<lambda>k. 61"
      and token_hash = hex_of, OF r _ _ refl refl]
  show ?thesis
    using inst [OF ip(1) tok(1), of "Some 1" "Some 100"]
      inst [OF ip(1) tok(1), of "Some 5" "Some 1"]
      inst [OF ip(1) tok(1), of "Some 5" None]
      inst [OF ip(2) tok(2), of "Some 5" None]
      run
    by simp
qed

text \<open>
  C6 as stated fails when the minute window denies: with one earlier request of second 60
  and a limit of 1 per minute, the request of second 61 is denied by the minute window,
  and the hour window has been checked all the same, its count going from 1 to 2.
\<close>

theorem minute_denial_still_counts_hour:
  "fst (check_rate_limit busy_limiter default_settings hex_of plain_request (Some 1) (Some 100)
          (\<lambda>k. 61))
     = Some (too_many ''Rate limit exceeded'' ''per_minute'' 1 2 59)
   \<and> count_of busy_limiter ''rate_limit:ip:1.2.3.4:hour'' = 1
   \<and> count_of (snd (check_rate_limit busy_limiter default_settings hex_of plain_request
                       (Some 1) (Some 100) (\<lambda>k. 61)))
        ''rate_limit:ip:1.2.3.4:hour'' = 2"
  by code_simp

text \<open>
  C8, as amended. With a handle to a store that answers, \<open>clear_rate_limits\<close> deletes
  the minute key and the hour key of the identity and answers \<open>True\<close>, whether the keys
  existed or not;
  clearing again answers \<open>True\<close> and changes nothing. After it both counts are 0, and the
  next check of either key, by the facade's windows of 60 and 3600 seconds, reads the
  count 1 and admits for every limit of at least 1.
\<close>

theorem clear_resets_both_windows:
  assumes "redis self = Some (Up, st)"
    and "minute_key = generate_key lim_type identifier ''minute''"
    and "hour_key = generate_key lim_type identifier ''hour''"
    and "cleared = self\<lparr>redis := Some (Up, st(minute_key := None, hour_key := None))\<rparr>"
  shows "clear_rate_limits self identifier lim_type = (True, cleared)
       \<and> clear_rate_limits cleared identifier lim_type = (True, cleared)
       \<and> count_of cleared minute_key = 0 \<and> count_of cleared hour_key = 0
       \<and> (\<forall>lim now. 1 \<le> lim \<longrightarrow>
             (\<exists>self'. is_rate_limited cleared minute_key lim 60 now
                        = Inr ((False, 1, 60 - now mod 60), self')))
       \<and> (\<forall>lim now. 1 \<le> lim \<longrightarrow>
             (\<exists>self'. is_rate_limited cleared hour_key lim 3600 now
                        = Inr ((False, 1, 3600 - now mod 3600), self')))"
proof -
  let ?st' = "st(minute_key := None, hour_key := None)"
  have r: "redis cleared = Some (Up, ?st')"
    by (simp add: assms(4))
  have gone: "?st' minute_key = None" "?st' hour_key = None"
    by simp_all
  have first: "clear_rate_limits self identifier lim_type = (True, cleared)"
    using assms by (simp add: clear_rate_limits_def delete_def Let_def)
  have again: "clear_rate_limits cleared identifier lim_type = (True, cleared)"
    using assms(2-4) by (simp add: clear_rate_limits_def delete_def Let_def)
  have counts: "count_of cleared minute_key = 0" "count_of cleared hour_key = 0"
    using r by (simp_all add: count_of_def zcard_def)
  have m: "\<exists>self'. is_rate_limited cleared minute_key lim 60 now
                     = Inr ((False, 1, 60 - now mod 60), self')" if "1 \<le> lim" for lim now
    using admit_fresh_key [OF r gone(1), of 60 lim now] that by simp
  have h: "\<exists>self'. is_rate_limited cleared hour_key lim 3600 now
                     = Inr ((False, 1, 3600 - now mod 3600), self')" if "1 \<le> lim" for lim now
    using admit_fresh_key [OF r gone(2), of 3600 lim now] that by simp
  from first again counts m h show ?thesis by blast
qed

theorem clear_resets_both_windows_witness:
  "clear_rate_limits busy_limiter ''1.2.3.4'' ''ip''
     = (True, busy_limiter\<lparr>redis := Some (Up, (store_of
          [(''rate_limit:ip:1.2.3.4:minute'', [(''60'', 60)]),
           (''rate_limit:ip:1.2.3.4:hour'', [(''60'', 60)])])
          (''rate_limit:ip:1.2.3.4:minute'' := None, ''rate_limit:ip:1.2.3.4:hour'' := None))\<rparr>)
   \<and> count_of (snd (clear_rate_limits busy_limiter ''1.2.3.4'' ''ip''))
        ''rate_limit:ip:1.2.3.4:minute'' = 0
   \<and> admit_seq (snd (clear_rate_limits busy_limiter ''1.2.3.4'' ''ip''))
        ''rate_limit:ip:1.2.3.4:minute'' 1 60 [61] = [(False, 1, 59)]
   \<and> admit_seq (snd (clear_rate_limits busy_limiter ''1.2.3.4'' ''ip''))
        ''rate_limit:ip:1.2.3.4:hour'' 1 3600 [61] = [(False, 1, 3539)]"
proof -
  let ?st = "store_of [(''rate_limit:ip:1.2.3.4:minute'', [(''60'', 60)]),
                       (''rate_limit:ip:1.2.3.4:hour'', [(''60'', 60)])]"
  have r: "redis busy_limiter = Some (Up, ?st)"
    by (simp add: busy_limiter_def RateLimiter_init_def)
  have km: "''rate_limit:ip:1.2.3.4:minute'' = generate_key ''ip'' ''1.2.3.4'' ''minute''"
    and kh: "''rate_limit:ip:1.2.3.4:hour'' = generate_key ''ip'' ''1.2.3.4'' ''hour''"
    by (simp_all add: generate_key_def)
  have one: "(1::int) \<le> 1" by simp
  note inst = clear_resets_both_windows [OF r km kh refl]
  from inst have c: "clear_rate_limits busy_limiter ''1.2.3.4'' ''ip''
     = (True, busy_limiter\<lparr>redis := Some (Up, ?st
          (''rate_limit:ip:1.2.3.4:minute'' := None, ''rate_limit:ip:1.2.3.4:hour'' := None))\<rparr>)"
    by blast
  from inst one obtain s1 s2 where
    "is_rate_limited (busy_limiter\<lparr>redis := Some (Up, ?st
          (''rate_limit:ip:1.2.3.4:minute'' := None, ''rate_limit:ip:1.2.3.4:hour'' := None))\<rparr>)
        ''rate_limit:ip:1.2.3.4:minute'' 1 60 61 = Inr ((False, 1, 60 - 61 mod 60), s1)"
    "is_rate_limited (busy_limiter\<lparr>redis := Some (Up, ?st
          (''rate_limit:ip:1.2.3.4:minute'' := None, ''rate_limit:ip:1.2.3.4:hour'' := None))\<rparr>)
        ''rate_limit:ip:1.2.3.4:hour'' 1 3600 61 = Inr ((False, 1, 3600 - 61 mod 3600), s2)"
    by blast
  moreover from inst have "count_of (busy_limiter\<lparr>redis := Some (Up, ?st
          (''rate_limit:ip:1.2.3.4:minute'' := None, ''rate_limit:ip:1.2.3.4:hour'' := None))\<rparr>)
        ''rate_limit:ip:1.2.3.4:minute'' = 0"
    by blast
  ultimately show ?thesis
    using c by simp
qed

text \<open>
  C8 as stated fails for a limiter that holds no store handle: \<open>clear_rate_limits\<close> then
  answers \<open>False\<close>, and leaves the limiter as it is.
\<close>

theorem clear_without_store_reports_failure:
  "clear_rate_limits (RateLimiter_init Down Map.empty) ''1.2.3.4'' ''ip''
     = (False, RateLimiter_init Down Map.empty)"
  by (simp add: clear_rate_limits_def RateLimiter_init_def)

text \<open>
  C10, as amended. The IP identity is the first comma-separated entry of
  \<open>X-Forwarded-For\<close>, stripped of whitespace, when that header is present and not empty;
  otherwise the value of \<open>X-Real-IP\<close> when that header is present and not empty; otherwise
  the peer's address when the request has a peer; otherwise \<open>unknown\<close>. The identity is a
  function of the headers and the peer alone, and the lookup never raises.
\<close>

theorem client_ip_precedence:
  "(\<forall>forwarded_for. headers request ''X-Forwarded-For'' = Some forwarded_for \<and> forwarded_for \<noteq> []
      \<longrightarrow> get_client_ip request = Inr (strip (takeWhile (\<lambda>c. c \<noteq> CHR '','') forwarded_for)))
   \<and> (\<forall>real_ip. falsy (headers request ''X-Forwarded-For'')
         \<and> headers request ''X-Real-IP'' = Some real_ip \<and> real_ip \<noteq> []
      \<longrightarrow> get_client_ip request = Inr real_ip)
   \<and> (\<forall>host. falsy (headers request ''X-Forwarded-For'') \<and> falsy (headers request ''X-Real-IP'')
         \<and> req_client request = Some host
      \<longrightarrow> get_client_ip request = Inr host)
   \<and> (falsy (headers request ''X-Forwarded-For'') \<and> falsy (headers request ''X-Real-IP'')
         \<and> req_client request = None
      \<longrightarrow> get_client_ip request = Inr ''unknown'')"
proof -
  have first: "get_client_ip request = Inr (strip (takeWhile (\<lambda>c. c \<noteq> CHR '','') ff))"
    if "headers request ''X-Forwarded-For'' = Some ff" "ff \<noteq> []" for ff
  proof -
    obtain ps where "split_on CHR '','' ff = takeWhile (\<lambda>x. x \<noteq> CHR '','') ff # ps"
      using split_on_first by blast
    with that show ?thesis by (simp add: get_client_ip_def)
  qed
  have rest: "get_client_ip request =
      Inr (case headers request ''X-Real-IP'' of
             Some real_ip \<Rightarrow>
               if real_ip \<noteq> [] then real_ip
               else (case req_client request of Some host \<Rightarrow> host | None \<Rightarrow> ''unknown'')
           | None \<Rightarrow> (case req_client request of Some host \<Rightarrow> host | None \<Rightarrow> ''unknown''))"
    if "falsy (headers request ''X-Forwarded-For'')"
    using that by (auto simp: get_client_ip_def falsy_def Let_def split: option.splits)
  show ?thesis
    using first by (auto simp: rest falsy_def)
qed

theorem client_ip_precedence_witness:
  "get_client_ip (request_of [(''X-Forwarded-For'', '' 203.0.113.9 , 10.0.0.1''),
                              (''X-Real-IP'', ''10.0.0.2'')] (Some ''192.0.2.7''))
     = Inr ''203.0.113.9''
   \<and> get_client_ip (request_of [(''X-Real-IP'', ''10.0.0.2'')] (Some ''192.0.2.7''))
       = Inr ''10.0.0.2''
   \<and> get_client_ip (request_of [] (Some ''192.0.2.7'')) = Inr ''192.0.2.7''
   \<and> get_client_ip (request_of [] None) = Inr ''unknown''"
proof -
  let ?r1 = "request_of [(''X-Forwarded-For'', '' 203.0.113.9 , 10.0.0.1''),
                         (''X-Real-IP'', ''10.0.0.2'')] (Some ''192.0.2.7'')"
  let ?r2 = "request_of [(''X-Real-IP'', ''10.0.0.2'')] (Some ''192.0.2.7'')"
  let ?r3 = "request_of [] (Some ''192.0.2.7'')"
  let ?r4 = "request_of [] None"
  have h1: "headers ?r1 ''X-Forwarded-For'' = Some '' 203.0.113.9 , 10.0.0.1''"
    by (simp add: request_of_def)
  have s1: "strip (takeWhile (\<lambda>c. c \<noteq> CHR '','') '' 203.0.113.9 , 10.0.0.1'') = ''203.0.113.9''"
    by (simp add: strip_def py_isspace_def)
  have h2: "falsy (headers ?r2 ''X-Forwarded-For'')" "headers ?r2 ''X-Real-IP'' = Some ''10.0.0.2''"
    by (simp_all add: request_of_def falsy_def)
  have h3: "falsy (headers ?r3 ''X-Forwarded-For'')" "falsy (headers ?r3 ''X-Real-IP'')"
    "req_client ?r3 = Some ''192.0.2.7''"
    by (simp_all add: request_of_def falsy_def)
  have h4: "falsy (headers ?r4 ''X-Forwarded-For'')" "falsy (headers ?r4 ''X-Real-IP'')"
    "req_client ?r4 = None"
    by (simp_all add: request_of_def falsy_def)
  have "get_client_ip ?r1 = Inr ''203.0.113.9''"
    using client_ip_precedence [of ?r1] h1 s1 by auto
  moreover have "get_client_ip ?r2 = Inr ''10.0.0.2''"
    using client_ip_precedence [of ?r2] h2 by auto
  moreover have "get_client_ip ?r3 = Inr ''192.0.2.7''"
    using client_ip_precedence [of ?r3] h3 by auto
  moreover have "get_client_ip ?r4 = Inr ''unknown''"
    using client_ip_precedence [of ?r4] h4 by auto
  ultimately show ?thesis by simp
qed

text \<open>
  C10 as stated fails for a header that is present and empty: the request carries
  \<open>X-Forwarded-For\<close> with the empty value, and the identity is the value of \<open>X-Real-IP\<close>,
  not the (empty) first entry of the header.
\<close>

theorem empty_forwarded_header_counterexample:
  "headers (request_of [(''X-Forwarded-For'', ''''), (''X-Real-IP'', ''10.0.0.1'')]
              (Some ''192.0.2.7'')) ''X-Forwarded-For'' = Some ''''
   \<and> get_client_ip (request_of [(''X-Forwarded-For'', ''''), (''X-Real-IP'', ''10.0.0.1'')]
                       (Some ''192.0.2.7''))
       = Inr ''10.0.0.1''"
  by (simp add: request_of_def get_client_ip_def)

section \<open>Properties of the command channel\<close>

text \<open>
  C3. A service with the constructor's budget of 5 attempts and delay of 5 seconds, and
  with its attempt count at 0 as a successful connection leaves it, goes through any run
  of unexpected disconnections (reason code not 0) as follows. It starts one reconnection
  per disconnection, each after a sleep of 5 seconds, for the first 5 of them and none
  after that, whatever the reconnections are answered. From the fifth disconnection on
  the service is in the FAILED state, and stays in it: a further disconnection of either
  kind only logs and leaves the service as it is, \<open>disconnect()\<close> does nothing, an inbound
  message and a refused connection leave it FAILED. A successful connection
  (\<open>_on_connect\<close> with code 0, which only a call of \<open>connect\<close> brings about) sets the
  attempt count back to 0 and keeps budget and delay.
\<close>

theorem reconnect_budget:
  assumes "max_connection_attempts self = 5" and "reconnect_delay self = 5"
    and "connection_attempts self = 0" and "client self \<noteq> None"
    and "list_all (\<lambda>d. fst d \<noteq> 0) ds"
    and "disconnects self cfg ds = (self', acts)"
  shows "filter is_retry acts
           = concat (replicate (min (length ds) 5)
               [Sleep 5, ClientConnect (mqtt_broker cfg) (mqtt_port cfg) (mqtt_keepalive cfg)])
       \<and> connection_attempts self' = int (min (length ds) 5)
       \<and> (5 \<le> length ds \<longrightarrow>
             failed self'
           \<and> (\<forall>rc outcome. \<exists>w. on_disconnect self' cfg rc outcome = (self', [Log WARNING w]))
           \<and> (\<forall>outcome. disconnect self' outcome = (self', []))
           \<and> (\<forall>now utf8_decode json_loads msg.
                 failed (fst (on_message self' now utf8_decode json_loads msg)))
           \<and> (\<forall>rc now answer. rc \<noteq> 0 \<longrightarrow> failed (fst (on_connect self' rc now answer))))
       \<and> (\<forall>now answer.
             is_connected (fst (on_connect self' 0 now answer))
           \<and> connection_attempts (fst (on_connect self' 0 now answer)) = 0
           \<and> max_connection_attempts (fst (on_connect self' 0 now answer)) = 5
           \<and> reconnect_delay (fst (on_connect self' 0 now answer)) = 5
           \<and> client (fst (on_connect self' 0 now answer)) \<noteq> None)"
proof -
  have le: "connection_attempts self \<le> max_connection_attempts self"
    using assms(1,3) by simp
  note run = disconnects_budget [OF assms(5,4) le, of cfg, unfolded assms(1,2,3,6) fst_conv snd_conv]
  have retries: "filter is_retry acts
           = concat (replicate (min (length ds) 5)
               [Sleep 5, ClientConnect (mqtt_broker cfg) (mqtt_port cfg) (mqtt_keepalive cfg)])"
    and attempts: "connection_attempts self' = int (min (length ds) 5)"
    and kept: "max_connection_attempts self' = 5" "reconnect_delay self' = 5"
      "client self' \<noteq> None"
    and down: "ds \<noteq> [] \<Longrightarrow> \<not> is_connected self'"
    using run assms(4) by simp_all
  have exhausted: "failed self'
           \<and> (\<forall>rc outcome. \<exists>w. on_disconnect self' cfg rc outcome = (self', [Log WARNING w]))
           \<and> (\<forall>outcome. disconnect self' outcome = (self', []))
           \<and> (\<forall>now utf8_decode json_loads msg.
                 failed (fst (on_message self' now utf8_decode json_loads msg)))
           \<and> (\<forall>rc now answer. rc \<noteq> 0 \<longrightarrow> failed (fst (on_connect self' rc now answer)))"
    if "5 \<le> length ds"
  proof -
    from that have "ds \<noteq> []" by auto
    then have off: "\<not> is_connected self'" by (rule down)
    have full: "connection_attempts self' = 5"
      using that attempts by simp
    have f: "failed self'"
      using off full kept(1) by (simp add: failed_def)
    have same: "self'\<lparr>is_connected := False\<rparr> = self'"
      using off by (rule not_connected_unchanged)
    have d: "\<exists>w. on_disconnect self' cfg rc outcome = (self', [Log WARNING w])" for rc outcome
      using on_disconnect_no_retry [of rc self' cfg outcome] full kept(1) same by simp
    have x: "disconnect self' outcome = (self', [])" for outcome
      using off by (simp add: disconnect_def)
    have m: "failed (fst (on_message self' now utf8_decode json_loads msg))"
      for now utf8_decode json_loads msg
      using f by (auto simp: failed_def on_message_def on_message_try_def Let_def
          split: option.splits loads_outcome.splits decode_outcome.splits
            handler_outcome.splits)
    have c: "failed (fst (on_connect self' rc now answer))" if "rc \<noteq> 0" for rc now answer
      using f that by (simp add: failed_def on_connect_def)
    from f d x m c show ?thesis by blast
  qed
  have reset: "is_connected (fst (on_connect self' 0 now answer))
           \<and> connection_attempts (fst (on_connect self' 0 now answer)) = 0
           \<and> max_connection_attempts (fst (on_connect self' 0 now answer)) = 5
           \<and> reconnect_delay (fst (on_connect self' 0 now answer)) = 5
           \<and> client (fst (on_connect self' 0 now answer)) \<noteq> None" for now answer
    using kept by (simp add: on_connect_def)
  from retries attempts exhausted reset show ?thesis by blast
qed

theorem reconnect_budget_witness:
  "filter is_retry (snd (disconnects connected_service default_settings six_drops))
     = concat (replicate 5 [Sleep 5, ClientConnect ''mqtt.foodyeh.io'' 8883 60])
   \<and> connection_attempts (fst (disconnects connected_service default_settings six_drops)) = 5
   \<and> failed (fst (disconnects connected_service default_settings six_drops))
   \<and> connection_attempts
        (fst (on_connect (fst (disconnects connected_service default_settings six_drops))
                0 9000000 (\<lambda>t. SubscribeRc 0))) = 0"
proof -
  have h: "max_connection_attempts connected_service = 5" "reconnect_delay connected_service = 5"
    "connection_attempts connected_service = 0" "client connected_service \<noteq> None"
    by (simp_all add: fresh_service_def connected_service_def MQTTService_init_def
        on_connect_def)
  have u: "list_all (\<lambda>d. fst d \<noteq> 0) six_drops"
    by (simp add: six_drops_def)
  have n: "length six_drops = 6"
    by (simp add: six_drops_def)
  have c: "mqtt_broker default_settings = ''mqtt.foodyeh.io''" "mqtt_port default_settings = 8883"
    "mqtt_keepalive default_settings = 60"
    by (simp_all add: default_settings_def)
  show ?thesis
    using reconnect_budget [OF h u surjective_pairing, of default_settings] n c
    by simp
qed

text \<open>
  C4. While \<open>is_connected\<close> is false, publishing an order and publishing an administrative
  command both answer \<open>False\<close>; the one thing they do is write the log record, so nothing
  is handed to the broker client and nothing is kept for later (the methods assign to no
  field of the service).
\<close>

theorem publish_refused_when_not_connected:
  assumes "\<not> is_connected self"
  shows "publish_order self order_id item_id slot_id quantity now_iso outcome
           = (False, [Log ERROR ''Cannot publish order: MQTT not connected''])
       \<and> publish_admin_command self command parameters now_iso outcome
           = (False, [Log ERROR ''Cannot publish admin command: MQTT not connected''])"
  using assms by (simp add: publish_order_def publish_admin_command_def)

theorem publish_refused_when_not_connected_witness:
  "\<not> is_connected fresh_service
   \<and> publish_order fresh_service ''o-17'' ''cola'' 4 1 ''2024-01-01T00:00:00'' (PublishRc 0)
       = (False, [Log ERROR ''Cannot publish order: MQTT not connected''])
   \<and> publish_admin_command fresh_service ''reboot'' None ''2024-01-01T00:00:00'' (PublishRc 0)
       = (False, [Log ERROR ''Cannot publish admin command: MQTT not connected''])"
proof -
  have h: "\<not> is_connected fresh_service"
    by (simp add: fresh_service_def MQTTService_init_def)
  show ?thesis
    using h publish_refused_when_not_connected [OF h] by simp
qed

text \<open>
  C7, as amended. \<open>is_healthy\<close> answers false when the service is not connected, and false
  when it is connected and the last inbound message was observed more than 300 seconds
  ago. In every other case it answers true: also when the service is connected and no
  inbound message has been observed at all.
\<close>

theorem is_healthy_iff:
  "fst (is_healthy self now) =
     (is_connected self \<and>
      (case last_message_time self of
         None \<Rightarrow> True
       | Some seen \<Rightarrow> now - seen \<le> 300 * 1000000))"
  by (auto simp: is_healthy_def split: option.splits)

text \<open>
  C7 as stated fails for a service that connected at second 1 and has observed no message:
  asked at second 1000, with no message in the last 300 seconds, it answers true.
\<close>

theorem healthy_without_any_message:
  "is_connected connected_service \<and> last_message_time connected_service = None
   \<and> fst (is_healthy connected_service 1000000000) = True"
  by (simp add: fresh_service_def connected_service_def MQTTService_init_def on_connect_def
      is_healthy_def)

text \<open>
  C9, as amended. Whatever the message, \<open>_on_message\<close> leaves the service as it found it
  but for \<open>last_message_time\<close>: the connection flag, the attempt count and the client are
  untouched; and all it does is write log records. A payload that is not UTF-8, or on
  which \<open>json.loads\<close> raises something else than \<open>JSONDecodeError\<close>, is logged as an error
  by the outer handler; a payload that is not JSON is logged as a warning; a handler that
  raises an exception of class \<open>Exception\<close> is logged as an error; a topic without handler
  is logged at debug level; in each of these cases, and when the handler returns, the
  method returns. A handler that raises an exception outside class \<open>Exception\<close> is not
  caught: the exception leaves \<open>_on_message\<close>, with nothing logged about it. (A handler
  gets the decoded data and nothing of the service.)
\<close>

theorem inbound_message_contained:
  "\<exists>acts escaped.
       on_message self now utf8_decode json_loads msg
         = (self\<lparr>last_message_time := Some now\<rparr>, acts, escaped)
     \<and> list_all is_log acts
     \<and> (\<forall>e. utf8_decode (payload msg) = DecodeRaises e
           \<longrightarrow> acts = [Log ERROR (''Error processing MQTT message: '' @ e)]
               \<and> escaped = None)
     \<and> (\<forall>text. utf8_decode (payload msg) = Decoded text \<and> json_loads text = JSONDecodeError
           \<longrightarrow> acts = [Log DEBUG ''Received MQTT message'',
                       Log WARNING ''Invalid JSON payload received'']
               \<and> escaped = None)
     \<and> (\<forall>text e. utf8_decode (payload msg) = Decoded text \<and> json_loads text = LoadsRaises e
           \<longrightarrow> acts = [Log DEBUG ''Received MQTT message'',
                       Log ERROR (''Error processing MQTT message: '' @ e)]
               \<and> escaped = None)
     \<and> (\<forall>text data handler e.
           utf8_decode (payload msg) = Decoded text \<and> json_loads text = Loaded data
           \<and> message_handlers self (topic msg) = Some handler \<and> handler data = Raises e
           \<longrightarrow> acts = [Log DEBUG ''Received MQTT message'',
                       Log ERROR (''Error in message handler for topic '' @ topic msg
                                  @ '': '' @ e)]
               \<and> escaped = None)
     \<and> (\<forall>text data.
           utf8_decode (payload msg) = Decoded text \<and> json_loads text = Loaded data
           \<and> message_handlers self (topic msg) = None
           \<longrightarrow> acts = [Log DEBUG ''Received MQTT message'',
                       Log DEBUG ''No handler registered for topic'']
               \<and> escaped = None)
     \<and> (\<forall>text data handler.
           utf8_decode (payload msg) = Decoded text \<and> json_loads text = Loaded data
           \<and> message_handlers self (topic msg) = Some handler \<and> handler data = Returned
           \<longrightarrow> acts = [Log DEBUG ''Received MQTT message''] \<and> escaped = None)
     \<and> (\<forall>text data handler e.
           utf8_decode (payload msg) = Decoded text \<and> json_loads text = Loaded data
           \<and> message_handlers self (topic msg) = Some handler \<and> handler data = Escapes e
           \<longrightarrow> acts = [Log DEBUG ''Received MQTT message''] \<and> escaped = Some e)"
proof (cases "utf8_decode (payload msg)")
  case (DecodeRaises e)
  then show ?thesis
    by (simp add: on_message_def on_message_try_def)
next
  case (Decoded body)
  show ?thesis
  proof (cases "json_loads body")
    case JSONDecodeError
    with Decoded show ?thesis
      by (simp add: on_message_def on_message_try_def)
  next
    case (LoadsRaises e)
    with Decoded show ?thesis
      by (simp add: on_message_def on_message_try_def)
  next
    case (Loaded data)
    show ?thesis
    proof (cases "message_handlers self (topic msg)")
      case None
      with Decoded Loaded show ?thesis
        by (simp add: on_message_def on_message_try_def)
    next
      case (Some handler)
      with Decoded Loaded show ?thesis
        by (cases "handler data") (simp_all add: on_message_def on_message_try_def)
    qed
  qed
qed

theorem inbound_message_contained_witness:
  "on_message picky_service 7000000 ascii_decode toy_loads (status_message [CHR 0xFF])
     = (picky_service\<lparr>last_message_time := Some 7000000\<rparr>,
        [Log ERROR ''Error processing MQTT message: invalid start byte''], None)
   \<and> on_message picky_service 7000000 ascii_decode toy_loads (status_message ''{oops'')
       = (picky_service\<lparr>last_message_time := Some 7000000\<rparr>,
          [Log DEBUG ''Received MQTT message'', Log WARNING ''Invalid JSON payload received''],
          None)
   \<and> on_message picky_service 7000000 ascii_decode toy_loads (status_message ''[[[['')
       = (picky_service\<lparr>last_message_time := Some 7000000\<rparr>,
          [Log DEBUG ''Received MQTT message'',
           Log ERROR ''Error processing MQTT message: maximum recursion depth exceeded''],
          None)
   \<and> on_message picky_service 7000000 ascii_decode toy_loads (status_message ''null'')
       = (picky_service\<lparr>last_message_time := Some 7000000\<rparr>,
          [Log DEBUG ''Received MQTT message'',
           Log ERROR ''Error in message handler for topic foodyeh/status: no data''],
          None)
   \<and> on_message picky_service 7000000 ascii_decode toy_loads (heartbeat_message ''{}'')
       = (picky_service\<lparr>last_message_time := Some 7000000\<rparr>,
          [Log DEBUG ''Received MQTT message'', Log DEBUG ''No handler registered for topic''],
          None)
   \<and> on_message picky_service 7000000 ascii_decode toy_loads (status_message ''{}'')
       = (picky_service\<lparr>last_message_time := Some 7000000\<rparr>,
          [Log DEBUG ''Received MQTT message''], None)
   \<and> on_message picky_service 7000000 ascii_decode toy_loads (status_message ''false'')
       = (picky_service\<lparr>last_message_time := Some 7000000\<rparr>,
          [Log DEBUG ''Received MQTT message''], Some ''SystemExit'')"
proof -
  note inst = inbound_message_contained [of picky_service 7000000 ascii_decode toy_loads]
  have d0: "ascii_decode (payload (status_message [CHR 0xFF])) = DecodeRaises ''invalid start byte''"
    by (simp add: ascii_decode_def status_message_def)
  have d: "ascii_decode (payload (status_message ''{oops'')) = Decoded ''{oops''"
    "ascii_decode (payload (status_message ''[[[['')) = Decoded ''[[[[''"
    "ascii_decode (payload (status_message ''null'')) = Decoded ''null''"
    "ascii_decode (payload (heartbeat_message ''{}'')) = Decoded ''{}''"
    "ascii_decode (payload (status_message ''{}'')) = Decoded ''{}''"
    "ascii_decode (payload (status_message ''false'')) = Decoded ''false''"
    by (simp_all add: ascii_decode_def status_message_def heartbeat_message_def)
  have l: "toy_loads ''{oops'' = JSONDecodeError"
    "toy_loads ''[[[['' = LoadsRaises ''maximum recursion depth exceeded''"
    "toy_loads ''null'' = Loaded JNull"
    "toy_loads ''{}'' = Loaded (JDict [])"
    "toy_loads ''false'' = Loaded (JBool False)"
    by (simp_all add: toy_loads_def)
  have hs: "message_handlers picky_service (topic (status_message body)) = Some picky_handler"
    for body
    by (simp add: picky_service_def register_message_handler_def status_message_def)
  have hb: "message_handlers picky_service (topic (heartbeat_message ''{}'')) = None"
    by (simp add: picky_service_def register_message_handler_def heartbeat_message_def
        connected_service_def fresh_service_def MQTTService_init_def on_connect_def)
  have p: "picky_handler JNull = Raises ''no data''" "picky_handler (JDict []) = Returned"
    "picky_handler (JBool False) = Escapes ''SystemExit''"
    by (simp_all add: picky_handler_def)
  have t: "topic (status_message ''null'') = ''foodyeh/status''"
    by (simp add: status_message_def)
  have r0: "on_message picky_service 7000000 ascii_decode toy_loads (status_message [CHR 0xFF])
     = (picky_service\<lparr>last_message_time := Some 7000000\<rparr>,
        [Log ERROR ''Error processing MQTT message: invalid start byte''], None)"
    using inst [of "status_message [CHR 0xFF]"] d0 by auto
  have r1: "on_message picky_service 7000000 ascii_decode toy_loads (status_message ''{oops'')
       = (picky_service\<lparr>last_message_time := Some 7000000\<rparr>,
          [Log DEBUG ''Received MQTT message'', Log WARNING ''Invalid JSON payload received''],
          None)"
    using inst [of "status_message ''{oops''"] d(1) l(1) by auto
  have r2: "on_message picky_service 7000000 ascii_decode toy_loads (status_message ''[[[['')
       = (picky_service\<lparr>last_message_time := Some 7000000\<rparr>,
          [Log DEBUG ''Received MQTT message'',
           Log ERROR ''Error processing MQTT message: maximum recursion depth exceeded''],
          None)"
    using inst [of "status_message ''[[[[''"] d(2) l(2) by auto
  have r3: "on_message picky_service 7000000 ascii_decode toy_loads (status_message ''null'')
       = (picky_service\<lparr>last_message_time := Some 7000000\<rparr>,
          [Log DEBUG ''Received MQTT message'',
           Log ERROR ''Error in message handler for topic foodyeh/status: no data''],
          None)"
    using inst [of "status_message ''null''"] d(3) l(3) hs [of "''null''"] p(1) t by auto
  have r4: "on_message picky_service 7000000 ascii_decode toy_loads (heartbeat_message ''{}'')
       = (picky_service\<lparr>last_message_time := Some 7000000\<rparr>,
          [Log DEBUG ''Received MQTT message'', Log DEBUG ''No handler registered for topic''],
          None)"
    using inst [of "heartbeat_message ''{}''"] d(4) l(4) hb by auto
  have r5: "on_message picky_service 7000000 ascii_decode toy_loads (status_message ''{}'')
       = (picky_service\<lparr>last_message_time := Some 7000000\<rparr>,
          [Log DEBUG ''Received MQTT message''], None)"
    using inst [of "status_message ''{}''"] d(5) l(4) hs [of "''{}''"] p(2) by auto
  have r6: "on_message picky_service 7000000 ascii_decode toy_loads (status_message ''false'')
       = (picky_service\<lparr>last_message_time := Some 7000000\<rparr>,
          [Log DEBUG ''Received MQTT message''], Some ''SystemExit'')"
    using inst [of "status_message ''false''"] d(6) l(5) hs [of "''false''"] p(3) by auto
  show ?thesis
    using r0 r1 r2 r3 r4 r5 r6 by simp
qed

text \<open>
  C9 as stated fails for a handler that raises outside class \<open>Exception\<close>: the handler
  registered for the status topic raises \<open>SystemExit\<close> on the data \<open>false\<close>; neither
  \<open>except Exception\<close> clause catches it, nothing is logged about it, and it leaves
  \<open>_on_message\<close>.
\<close>

theorem handler_exit_leaves_on_message:
  "message_handlers picky_service ''foodyeh/status'' = Some picky_handler
   \<and> picky_handler (JBool False) = Escapes ''SystemExit''
   \<and> on_message picky_service 7000000 ascii_decode toy_loads (status_message ''false'')
       = (picky_service\<lparr>last_message_time := Some 7000000\<rparr>,
          [Log DEBUG ''Received MQTT message''], Some ''SystemExit'')"
  by (simp add: picky_service_def register_message_handler_def picky_handler_def
      status_message_def ascii_decode_def toy_loads_def on_message_def on_message_try_def)

end
